theory Spec2Isabelle
  imports Complex_Main "HOL-Library.AList"
begin

section \<open>Python values, exceptions and the HTTP transport\<close>

text \<open>
  The two SDK packages are request wrappers: every endpoint method builds one request,
  hands it to an HTTP library and converts the parsed JSON. The model keeps the values
  as the code sees them: a parsed JSON document (and every value the code places in a
  payload or a query) is a \<open>json\<close>; a Python \<open>dict\<close> is an association list in
  insertion order, looked up with \<open>map_of\<close>; \<open>None\<close> is \<open>JNull\<close>. JSON numbers are
  restricted to integers.
\<close>

datatype json =
    JNull
  | JBool bool
  | JInt int
  | JStr string
  | JList "json list"
  | JObj "(string \<times> json) list"

type_synonym dict = "(string \<times> json) list"

text \<open>Python's \<open>bool(v)\<close>, which decides \<open>if v:\<close>.\<close>

fun truthy :: "json \<Rightarrow> bool" where
  "truthy JNull = False"
| "truthy (JBool b) = b"
| "truthy (JInt n) = (n \<noteq> 0)"
| "truthy (JStr s) = (s \<noteq> [])"
| "truthy (JList xs) = (xs \<noteq> [])"
| "truthy (JObj kvs) = (kvs \<noteq> [])"

text \<open>
  Arguments are typed in the source (\<open>Optional[str]\<close>, \<open>Optional[List[str]]\<close>,
  \<open>Optional[bool]\<close>, \<open>Optional[int]\<close>, \<open>Optional[Dict]\<close>); the model takes them at
  these types and embeds them into \<open>json\<close> where the code stores or tests them.
\<close>

definition opt_str :: "string option \<Rightarrow> json" where
  "opt_str a = (case a of None \<Rightarrow> JNull | Some s \<Rightarrow> JStr s)"

definition str_list :: "string list \<Rightarrow> json" where
  "str_list xs = JList (map JStr xs)"

definition opt_str_list :: "string list option \<Rightarrow> json" where
  "opt_str_list a = (case a of None \<Rightarrow> JNull | Some xs \<Rightarrow> str_list xs)"

definition opt_bool :: "bool option \<Rightarrow> json" where
  "opt_bool a = (case a of None \<Rightarrow> JNull | Some b \<Rightarrow> JBool b)"

definition opt_int :: "int option \<Rightarrow> json" where
  "opt_int a = (case a of None \<Rightarrow> JNull | Some n \<Rightarrow> JInt n)"

definition opt_dict :: "dict option \<Rightarrow> json" where
  "opt_dict a = (case a of None \<Rightarrow> JNull | Some d \<Rightarrow> JObj d)"

text \<open>
  Exceptions. \<open>cause\<close> is what the HTTP library raises: a transport failure, the
  status error of \<open>raise_for_status\<close>, or the decoding error of \<open>response.json()\<close>.
  \<open>RequestFailed e\<close> is Client A's \<open>Exception(f"API request failed: {e}")\<close>, raised inside
  the \<open>except\<close> block that caught \<open>e\<close>, hence with \<open>e\<close> as its context.
  \<open>LibraryError e\<close> is the library's exception \<open>e\<close> itself, propagating to the caller.
  \<open>SyntaxError n\<close> is raised by the import of a module whose line \<open>n\<close> Python refuses.
\<close>

datatype failure = ConnectionRefused | Timeout | DNSFailure

datatype cause = TransportError failure | StatusError nat | JSONDecodeError

datatype type_error =
    NotSubscriptable
  | BadIndex
  | NotIterable
  | NotAMapping
  | NotInstantiable
  | NoContextManager

datatype py_error =
    RequestFailed cause
  | LibraryError cause
  | KeyError string
  | TypeError type_error
  | AttributeError string
  | ValidationError string
  | SyntaxError nat

text \<open>Sequencing of computations that may raise: the first exception ends the run.\<close>

definition and_then :: "py_error + 'a \<Rightarrow> ('a \<Rightarrow> py_error + 'b) \<Rightarrow> py_error + 'b" where
  "and_then m f = (case m of Inl e \<Rightarrow> Inl e | Inr x \<Rightarrow> f x)"

text \<open>A list comprehension whose element expression may raise.\<close>

fun comprehension :: "('a \<Rightarrow> py_error + 'b) \<Rightarrow> 'a list \<Rightarrow> py_error + 'b list" where
  "comprehension f [] = Inr []"
| "comprehension f (x # xs) =
     and_then (f x) (\<lambda>y. and_then (comprehension f xs) (\<lambda>ys. Inr (y # ys)))"

text \<open>\<open>v[k]\<close> with a string key, \<open>v.get(k)\<close>, and \<open>for b in v\<close>.\<close>

fun getitem :: "json \<Rightarrow> string \<Rightarrow> py_error + json" where
  "getitem (JObj kvs) k = (case map_of kvs k of None \<Rightarrow> Inl (KeyError k) | Some v \<Rightarrow> Inr v)"
| "getitem (JList xs) k = Inl (TypeError BadIndex)"
| "getitem (JStr s) k = Inl (TypeError BadIndex)"
| "getitem v k = Inl (TypeError NotSubscriptable)"

fun get_or_none :: "json \<Rightarrow> string \<Rightarrow> py_error + json" where
  "get_or_none (JObj kvs) k = Inr (case map_of kvs k of None \<Rightarrow> JNull | Some v \<Rightarrow> v)"
| "get_or_none v k = Inl (AttributeError ''get'')"

fun iterate :: "json \<Rightarrow> py_error + json list" where
  "iterate (JList xs) = Inr xs"
| "iterate (JObj kvs) = Inr (map (\<lambda>kv. JStr (fst kv)) kvs)"
| "iterate (JStr s) = Inr (map (\<lambda>c. JStr [c]) s)"
| "iterate v = Inl (TypeError NotIterable)"

text \<open>
  The request handed to the HTTP library, and the library's answer. A transport is a
  function from the request to the answer, as a mocked transport is. \<open>Response s b\<close> is
  a response with status code \<open>s\<close>; \<open>b\<close> is its body parsed as JSON, \<open>None\<close> when the
  body is not JSON. \<open>request_timeout\<close> is the \<open>timeout=\<close> argument of the call, \<open>None\<close>
  when the call passes none (Client B leaves the timeout to its httpx client).
\<close>

record request =
  http_method :: string
  url :: string
  headers :: "(string \<times> string) list"
  json_body :: "dict option"
  params :: "dict option"
  request_timeout :: "int option"

datatype reply = Failed failure | Response nat "json option"

type_synonym transport = "request \<Rightarrow> reply"

text \<open>
  Library behaviour: \<open>requests.Response.raise_for_status\<close> raises \<open>HTTPError\<close> for the
  status codes 400 to 599; \<open>httpx.Response.raise_for_status\<close> raises \<open>HTTPStatusError\<close>
  for every status outside 200 to 299. The \<open>json()\<close> of requests (the package asks for
  2.28 or later) raises the library's own \<open>JSONDecodeError\<close>, a \<open>RequestException\<close>
  like its transport errors and its \<open>HTTPError\<close>.
\<close>

definition requests_raise_for_status :: "nat \<Rightarrow> bool" where
  "requests_raise_for_status s = (400 \<le> s \<and> s < 600)"

definition httpx_raise_for_status :: "nat \<Rightarrow> bool" where
  "httpx_raise_for_status s = (s < 200 \<or> 300 \<le> s)"

text \<open>
  The three library calls of a transport helper, in the order the code makes them:
  send, \<open>raise_for_status()\<close>, \<open>json()\<close>.
\<close>

definition send_and_parse :: "(nat \<Rightarrow> bool) \<Rightarrow> transport \<Rightarrow> request \<Rightarrow> cause + json" where
  "send_and_parse raises t req =
     (case t req of
        Failed f \<Rightarrow> Inl (TransportError f)
      | Response s b \<Rightarrow>
          if raises s then Inl (StatusError s)
          else (case b of None \<Rightarrow> Inl JSONDecodeError | Some d \<Rightarrow> Inr d))"

text \<open>Python's \<open>s.rstrip(chars)\<close>: every trailing character that is in \<open>chars\<close> goes.\<close>

definition rstrip :: "string \<Rightarrow> string \<Rightarrow> string" where
  "rstrip s chars = rev (dropWhile (\<lambda>c. c \<in> set chars) (rev s))"

section \<open>The clients' state\<close>

text \<open>
  The three classes hold the same attributes \<open>base_url\<close>, \<open>api_key\<close>, \<open>timeout\<close> and a
  connection object: \<open>self.session\<close> (a \<open>requests.Session\<close>) in Client A,
  \<open>self._client\<close> (an \<open>httpx.Client\<close> or \<open>httpx.AsyncClient\<close>) in Client B. The field
  \<open>connection\<close> is that object. Of a session the model keeps the headers this code sets
  and whether it has been closed; of an httpx client its timeout and whether it has been
  closed.
\<close>

record Session =
  session_headers :: "(string \<times> string) list"
  session_closed :: bool

record HttpxClient =
  client_timeout :: real
  is_closed :: bool

record ('t, 'c) client =
  base_url :: string
  api_key :: "string option"
  timeout :: 't
  connection :: 'c

type_synonym client_A = "(int, Session) client"
type_synonym client_B = "(real, HttpxClient) client"

section \<open>Client A: \<open>sdks/python/mathison_sdk/__init__.py\<close>\<close>

record ChatMessage =
  id' :: json
  role :: json
  content :: json
  timestamp :: json
  metadata :: json

record SendMessageResponse =
  message :: ChatMessage
  stream_id :: json

record ChatHistoryResponse =
  messages :: "ChatMessage list"
  history_total :: json
  history_limit :: json
  history_offset :: json

record Beam =
  beam_id :: json
  kind :: json
  title :: json
  tags :: json
  body :: json
  status :: json
  pinned :: json
  updated_at_ms :: json

record BeamQueryResponse =
  beams :: "Beam list"
  total' :: json

text \<open>\<open>MathisonClient.__init__\<close> (defaults: \<open>"http://localhost:3000"\<close>, \<open>None\<close>, \<open>30\<close>).\<close>

definition A_init :: "string \<Rightarrow> string option \<Rightarrow> int \<Rightarrow> client_A" where
  "A_init base_url_arg api_key_arg timeout_arg =
     (let h0 = [];
          h1 = (if truthy (opt_str api_key_arg)
                then AList.update ''Authorization'' (''Bearer '' @ the api_key_arg) h0
                else h0);
          h2 = AList.update ''Content-Type'' ''application/json'' h1
      in \<lparr>base_url = rstrip base_url_arg ''/'',
          api_key = api_key_arg,
          timeout = timeout_arg,
          connection = \<lparr>session_headers = h2, session_closed = False\<rparr>\<rparr>)"

text \<open>
  \<open>MathisonClient._request\<close>. The result pairs the request that was sent with the
  outcome of the call. The session's headers go out with every request.
\<close>

definition A_request ::
  "client_A \<Rightarrow> transport \<Rightarrow> string \<Rightarrow> string \<Rightarrow> dict option \<Rightarrow> dict option
     \<Rightarrow> request \<times> (py_error + json)" where
  "A_request self t method_arg path json_arg params_arg =
     (let url_v = base_url self @ path;
          params_v = (if truthy (opt_dict params_arg)
                      then Some (filter (\<lambda>kv. snd kv \<noteq> JNull) (the params_arg))
                      else params_arg);
          req = \<lparr>http_method = method_arg, url = url_v,
                 headers = session_headers (connection self),
                 json_body = json_arg, params = params_v,
                 request_timeout = Some (timeout self)\<rparr>
      in (req,
          case send_and_parse requests_raise_for_status t req of
            Inl e \<Rightarrow> Inl (RequestFailed e)
          | Inr d \<Rightarrow> Inr d))"

text \<open>An endpoint method continues with the parsed JSON of its one request.\<close>

definition returning ::
  "request \<times> (py_error + json) \<Rightarrow> (json \<Rightarrow> py_error + 'a) \<Rightarrow> request \<times> (py_error + 'a)" where
  "returning call f = (fst call, and_then (snd call) f)"

definition make_message :: "json \<Rightarrow> py_error + ChatMessage" where
  "make_message msg =
     and_then (getitem msg ''id'') (\<lambda>v1.
     and_then (getitem msg ''role'') (\<lambda>v2.
     and_then (getitem msg ''content'') (\<lambda>v3.
     and_then (getitem msg ''timestamp'') (\<lambda>v4.
     and_then (get_or_none msg ''metadata'') (\<lambda>v5.
       Inr \<lparr>id' = v1, role = v2, content = v3, timestamp = v4, metadata = v5\<rparr>)))))"

definition make_beam :: "json \<Rightarrow> py_error + Beam" where
  "make_beam b =
     and_then (getitem b ''beam_id'') (\<lambda>v1.
     and_then (getitem b ''kind'') (\<lambda>v2.
     and_then (getitem b ''title'') (\<lambda>v3.
     and_then (getitem b ''tags'') (\<lambda>v4.
     and_then (getitem b ''body'') (\<lambda>v5.
     and_then (getitem b ''status'') (\<lambda>v6.
     and_then (getitem b ''pinned'') (\<lambda>v7.
     and_then (getitem b ''updated_at_ms'') (\<lambda>v8.
       Inr \<lparr>beam_id = v1, kind = v2, title = v3, tags = v4, body = v5,
            status = v6, pinned = v7, updated_at_ms = v8\<rparr>))))))))"

definition health :: "client_A \<Rightarrow> transport \<Rightarrow> request \<times> (py_error + json)" where
  "health self t = A_request self t ''GET'' ''/health'' None None"

definition get_status :: "client_A \<Rightarrow> transport \<Rightarrow> request \<times> (py_error + json)" where
  "get_status self t = A_request self t ''GET'' ''/api/status'' None None"

definition get_identity :: "client_A \<Rightarrow> transport \<Rightarrow> request \<times> (py_error + json)" where
  "get_identity self t = A_request self t ''GET'' ''/api/identity'' None None"

definition send_message ::
  "client_A \<Rightarrow> transport \<Rightarrow> string \<Rightarrow> request \<times> (py_error + SendMessageResponse)" where
  "send_message self t content_arg =
     returning
       (A_request self t ''POST'' ''/api/chat/send'' (Some [(''content'', JStr content_arg)]) None)
       (\<lambda>data.
          and_then (getitem data ''message'') (\<lambda>msg_data.
          and_then (make_message msg_data) (\<lambda>m.
          and_then (get_or_none data ''stream_id'') (\<lambda>sid.
            Inr \<lparr>message = m, stream_id = sid\<rparr>))))"

definition get_chat_history ::
  "client_A \<Rightarrow> transport \<Rightarrow> int option \<Rightarrow> int option
     \<Rightarrow> request \<times> (py_error + ChatHistoryResponse)" where
  "get_chat_history self t limit offset =
     returning
       (A_request self t ''GET'' ''/api/chat/history'' None
          (Some [(''limit'', opt_int limit), (''offset'', opt_int offset)]))
       (\<lambda>data.
          and_then (getitem data ''messages'') (\<lambda>ms.
          and_then (iterate ms) (\<lambda>items.
          and_then (comprehension make_message items) (\<lambda>msgs.
          and_then (getitem data ''total'') (\<lambda>v1.
          and_then (getitem data ''limit'') (\<lambda>v2.
          and_then (getitem data ''offset'') (\<lambda>v3.
            Inr \<lparr>messages = msgs, history_total = v1, history_limit = v2,
                 history_offset = v3\<rparr>)))))))"

definition query_beams ::
  "client_A \<Rightarrow> transport \<Rightarrow> string option \<Rightarrow> string list option \<Rightarrow> string list option
     \<Rightarrow> bool option \<Rightarrow> int option \<Rightarrow> request \<times> (py_error + BeamQueryResponse)" where
  "query_beams self t text_arg tags_arg kinds include_dead limit =
     returning
       (A_request self t ''GET'' ''/api/beams'' None
          (Some [(''text'', opt_str text_arg), (''tags'', opt_str_list tags_arg),
                 (''kinds'', opt_str_list kinds), (''include_dead'', opt_bool include_dead),
                 (''limit'', opt_int limit)]))
       (\<lambda>data.
          and_then (getitem data ''beams'') (\<lambda>bs.
          and_then (iterate bs) (\<lambda>items.
          and_then (comprehension make_beam items) (\<lambda>beam_list.
          and_then (getitem data ''total'') (\<lambda>v.
            Inr \<lparr>beams = beam_list, total' = v\<rparr>)))))"

definition get_beam :: "client_A \<Rightarrow> transport \<Rightarrow> string \<Rightarrow> request \<times> (py_error + Beam)" where
  "get_beam self t beam_id_arg =
     returning (A_request self t ''GET'' (''/api/beams/'' @ beam_id_arg) None None) make_beam"

definition create_beam_payload ::
  "string \<Rightarrow> string \<Rightarrow> string list \<Rightarrow> string \<Rightarrow> string option \<Rightarrow> bool option \<Rightarrow> dict" where
  "create_beam_payload kind_arg title_arg tags_arg body_arg beam_id_arg pinned_arg =
     (let payload = [(''kind'', JStr kind_arg), (''title'', JStr title_arg),
                     (''tags'', str_list tags_arg), (''body'', JStr body_arg)];
          payload = (if truthy (opt_str beam_id_arg)
                     then AList.update ''beam_id'' (opt_str beam_id_arg) payload else payload);
          payload = (if opt_bool pinned_arg \<noteq> JNull
                     then AList.update ''pinned'' (opt_bool pinned_arg) payload else payload)
      in payload)"

definition create_beam ::
  "client_A \<Rightarrow> transport \<Rightarrow> string \<Rightarrow> string \<Rightarrow> string list \<Rightarrow> string \<Rightarrow> string option
     \<Rightarrow> bool option \<Rightarrow> request \<times> (py_error + Beam)" where
  "create_beam self t kind_arg title_arg tags_arg body_arg beam_id_arg pinned_arg =
     returning
       (A_request self t ''POST'' ''/api/beams''
          (Some (create_beam_payload kind_arg title_arg tags_arg body_arg beam_id_arg pinned_arg))
          None)
       make_beam"

definition update_beam_payload ::
  "string option \<Rightarrow> string list option \<Rightarrow> string option \<Rightarrow> dict" where
  "update_beam_payload title_arg tags_arg body_arg =
     (let payload = [];
          payload = (if truthy (opt_str title_arg)
                     then AList.update ''title'' (opt_str title_arg) payload else payload);
          payload = (if truthy (opt_str_list tags_arg)
                     then AList.update ''tags'' (opt_str_list tags_arg) payload else payload);
          payload = (if truthy (opt_str body_arg)
                     then AList.update ''body'' (opt_str body_arg) payload else payload)
      in payload)"

definition update_beam ::
  "client_A \<Rightarrow> transport \<Rightarrow> string \<Rightarrow> string option \<Rightarrow> string list option \<Rightarrow> string option
     \<Rightarrow> request \<times> (py_error + Beam)" where
  "update_beam self t beam_id_arg title_arg tags_arg body_arg =
     returning
       (A_request self t ''PATCH'' (''/api/beams/'' @ beam_id_arg)
          (Some (update_beam_payload title_arg tags_arg body_arg)) None)
       make_beam"

definition pin_beam :: "client_A \<Rightarrow> transport \<Rightarrow> string \<Rightarrow> request \<times> (py_error + json)" where
  "pin_beam self t beam_id_arg =
     A_request self t ''POST'' (''/api/beams/'' @ beam_id_arg @ ''/pin'') None None"

definition unpin_beam :: "client_A \<Rightarrow> transport \<Rightarrow> string \<Rightarrow> request \<times> (py_error + json)" where
  "unpin_beam self t beam_id_arg =
     A_request self t ''DELETE'' (''/api/beams/'' @ beam_id_arg @ ''/pin'') None None"

definition retire_beam :: "client_A \<Rightarrow> transport \<Rightarrow> string \<Rightarrow> request \<times> (py_error + json)" where
  "retire_beam self t beam_id_arg =
     A_request self t ''POST'' (''/api/beams/'' @ beam_id_arg @ ''/retire'') None None"

definition tombstone_beam_payload :: "string \<Rightarrow> string option \<Rightarrow> dict" where
  "tombstone_beam_payload reason_code approval_token =
     (let payload = [(''reason_code'', JStr reason_code)];
          payload = (if truthy (opt_str approval_token)
                     then AList.update ''approval_token'' (opt_str approval_token) payload
                     else payload)
      in payload)"

definition tombstone_beam ::
  "client_A \<Rightarrow> transport \<Rightarrow> string \<Rightarrow> string \<Rightarrow> string option
     \<Rightarrow> request \<times> (py_error + json)" where
  "tombstone_beam self t beam_id_arg reason_code approval_token =
     A_request self t ''POST'' (''/api/beams/'' @ beam_id_arg @ ''/tombstone'')
       (Some (tombstone_beam_payload reason_code approval_token)) None"

section \<open>Client B: \<open>version-one/sdks/python/mathison_sdk/client.py\<close>\<close>

text \<open>
  In the generated file the constructors and the helpers (\<open>__init__\<close>, \<open>__enter__\<close>,
  \<open>__exit__\<close>, \<open>close\<close>, \<open>_headers\<close>, \<open>_get\<close>, \<open>_post\<close>) stand on lines of their own. The
  endpoint methods do not: where one method ends and the next begins the file holds the
  two characters backslash and \<open>n\<close>, twice, instead of line breaks. The definitions of
  this section follow the text of each method between those separators, that is, the
  methods the generator wrote down. What Python makes of the file as it is, is the
  subject of the next section: the module is refused at import, so none of these methods
  is ever defined.

  The result models are pydantic classes (\<open>models.py\<close>). Their field validation is
  pydantic's and is a parameter of the model: \<open>pyd cls kvs\<close> validates the keyword
  arguments \<open>kvs\<close> against the class \<open>cls\<close> and gives the instance's fields or raises.
\<close>

datatype model_class =
    HealthResponse
  | GenomeMetadata
  | Node
  | Edge
  | SearchResponse
  | JobResult
  | InterpretResponse
  | CreateNodeResponse
  | CreateEdgeResponse

datatype b_value = Raw json | Model model_class dict

type_synonym pydantic = "model_class \<Rightarrow> dict \<Rightarrow> py_error + dict"

text \<open>
  \<open>Cls(**data)\<close>: the unpacking needs a mapping, then the class validates.
  \<open>Dict[str, Any](**data)\<close>: the unpacking needs a mapping, then the call of the
  \<open>typing\<close> alias raises, since \<open>typing.Dict\<close> cannot be instantiated.
\<close>

definition construct_model :: "pydantic \<Rightarrow> model_class \<Rightarrow> json \<Rightarrow> py_error + b_value" where
  "construct_model pyd cls data =
     (case data of
        JObj kvs \<Rightarrow> and_then (pyd cls kvs) (\<lambda>fields. Inr (Model cls fields))
      | _ \<Rightarrow> Inl (TypeError NotAMapping))"

definition typing_Dict :: "json \<Rightarrow> py_error + b_value" where
  "typing_Dict data =
     (case data of
        JObj kvs \<Rightarrow> Inl (TypeError NotInstantiable)
      | _ \<Rightarrow> Inl (TypeError NotAMapping))"

text \<open>\<open>k in v\<close> for a string \<open>k\<close>: a key of a dict, an element of a list, a substring.\<close>

definition is_substring :: "string \<Rightarrow> string \<Rightarrow> bool" where
  "is_substring k s = list_ex (\<lambda>i. take (length k) (drop i s) = k) [0..<Suc (length s)]"

fun contains :: "json \<Rightarrow> string \<Rightarrow> py_error + bool" where
  "contains (JObj kvs) k = Inr (k \<in> set (map fst kvs))"
| "contains (JList xs) k = Inr (JStr k \<in> set xs)"
| "contains (JStr s) k = Inr (is_substring k s)"
| "contains v k = Inl (TypeError NotIterable)"

subsection \<open>\<open>MathisonClient\<close>\<close>

definition B_init :: "string \<Rightarrow> string option \<Rightarrow> real \<Rightarrow> client_B" where
  "B_init base_url_arg api_key_arg timeout_arg =
     \<lparr>base_url = rstrip base_url_arg ''/'',
      api_key = api_key_arg,
      timeout = timeout_arg,
      connection = \<lparr>client_timeout = timeout_arg, is_closed = False\<rparr>\<rparr>"

definition B_close :: "client_B \<Rightarrow> client_B" where
  "B_close self = self\<lparr>connection := (connection self)\<lparr>is_closed := True\<rparr>\<rparr>"

definition B_enter :: "client_B \<Rightarrow> client_B" where
  "B_enter self = self"

definition B_exit :: "client_B \<Rightarrow> py_error option \<Rightarrow> client_B" where
  "B_exit self exc_val = B_close self"

definition B_headers :: "client_B \<Rightarrow> (string \<times> string) list" where
  "B_headers self =
     (let headers_v = [(''Content-Type'', ''application/json'')];
          headers_v = (if truthy (opt_str (api_key self))
                       then AList.update ''Authorization'' (''Bearer '' @ the (api_key self)) headers_v
                       else headers_v)
      in headers_v)"

definition B_get ::
  "client_B \<Rightarrow> transport \<Rightarrow> string \<Rightarrow> dict option \<Rightarrow> request \<times> (py_error + json)" where
  "B_get self t path params_arg =
     (let req = \<lparr>http_method = ''GET'', url = base_url self @ path, headers = B_headers self,
                 json_body = None, params = params_arg, request_timeout = None\<rparr>
      in (req,
          case send_and_parse httpx_raise_for_status t req of
            Inl e \<Rightarrow> Inl (LibraryError e)
          | Inr d \<Rightarrow> Inr d))"

definition B_post ::
  "client_B \<Rightarrow> transport \<Rightarrow> string \<Rightarrow> dict option \<Rightarrow> request \<times> (py_error + json)" where
  "B_post self t path json_arg =
     (let req = \<lparr>http_method = ''POST'', url = base_url self @ path, headers = B_headers self,
                 json_body = json_arg, params = None, request_timeout = None\<rparr>
      in (req,
          case send_and_parse httpx_raise_for_status t req of
            Inl e \<Rightarrow> Inl (LibraryError e)
          | Inr d \<Rightarrow> Inr d))"

definition get_genome ::
  "client_B \<Rightarrow> transport \<Rightarrow> pydantic \<Rightarrow> request \<times> (py_error + b_value)" where
  "get_genome self t pyd =
     returning (B_get self t ''/genome'' None) (construct_model pyd GenomeMetadata)"

definition get_health ::
  "client_B \<Rightarrow> transport \<Rightarrow> pydantic \<Rightarrow> request \<times> (py_error + b_value)" where
  "get_health self t pyd =
     returning (B_get self t ''/health'' None) (construct_model pyd HealthResponse)"

definition get_job_logs ::
  "client_B \<Rightarrow> transport \<Rightarrow> string option \<Rightarrow> int option \<Rightarrow> request \<times> (py_error + b_value)" where
  "get_job_logs self t job_id limit =
     returning (B_get self t ''/jobs/logs'' None) typing_Dict"

definition resume_job :: "client_B \<Rightarrow> transport \<Rightarrow> request \<times> (py_error + b_value)" where
  "resume_job self t =
     returning (B_post self t ''/jobs/resume'' None) (\<lambda>d. Inr (Raw d))"

definition run_job_payload :: "string \<Rightarrow> dict option \<Rightarrow> string option \<Rightarrow> dict" where
  "run_job_payload job_type inputs policy_id =
     (let payload = [(''jobType'', JStr job_type)];
          payload = (if truthy (opt_dict inputs)
                     then AList.update ''inputs'' (opt_dict inputs) payload else payload);
          payload = (if truthy (opt_str policy_id)
                     then AList.update ''policyId'' (opt_str policy_id) payload else payload)
      in payload)"

definition run_job ::
  "client_B \<Rightarrow> transport \<Rightarrow> pydantic \<Rightarrow> string \<Rightarrow> dict option \<Rightarrow> string option
     \<Rightarrow> request \<times> (py_error + b_value)" where
  "run_job self t pyd job_type inputs policy_id =
     returning (B_post self t ''/jobs/run'' (Some (run_job_payload job_type inputs policy_id)))
       (construct_model pyd JobResult)"

definition get_job_status_params :: "string option \<Rightarrow> int option \<Rightarrow> dict" where
  "get_job_status_params job_id limit =
     (let params_v = [];
          params_v = (if truthy (opt_str job_id)
                      then AList.update ''job_id'' (opt_str job_id) params_v else params_v);
          params_v = (if truthy (opt_int limit)
                      then AList.update ''limit'' (opt_int limit) params_v else params_v)
      in params_v)"

definition get_job_status ::
  "client_B \<Rightarrow> transport \<Rightarrow> pydantic \<Rightarrow> string option \<Rightarrow> int option
     \<Rightarrow> request \<times> (py_error + b_value)" where
  "get_job_status self t pyd job_id limit =
     (let params_v = get_job_status_params job_id limit
      in returning
           (B_get self t ''/jobs/status'' (if truthy (JObj params_v) then Some params_v else None))
           (\<lambda>data. and_then (contains data ''job_id'') (\<lambda>found.
              if found then construct_model pyd JobResult data else Inr (Raw data))))"

definition create_edge_payload ::
  "string \<Rightarrow> string \<Rightarrow> string \<Rightarrow> string \<Rightarrow> dict option \<Rightarrow> dict" where
  "create_edge_payload idempotency_key from_node to_node type_arg metadata_arg =
     (let payload = [(''idempotency_key'', JStr idempotency_key), (''from'', JStr from_node),
                     (''to'', JStr to_node), (''type'', JStr type_arg)];
          payload = (if truthy (opt_dict metadata_arg)
                     then AList.update ''metadata'' (opt_dict metadata_arg) payload else payload)
      in payload)"

definition create_edge ::
  "client_B \<Rightarrow> transport \<Rightarrow> pydantic \<Rightarrow> string \<Rightarrow> string \<Rightarrow> string \<Rightarrow> string \<Rightarrow> dict option
     \<Rightarrow> request \<times> (py_error + b_value)" where
  "create_edge self t pyd idempotency_key from_node to_node type_arg metadata_arg =
     returning
       (B_post self t ''/memory/edges''
          (Some (create_edge_payload idempotency_key from_node to_node type_arg metadata_arg)))
       (construct_model pyd CreateEdgeResponse)"

definition get_edge ::
  "client_B \<Rightarrow> transport \<Rightarrow> pydantic \<Rightarrow> string \<Rightarrow> request \<times> (py_error + b_value)" where
  "get_edge self t pyd id_arg =
     returning (B_get self t (''/memory/edges/'' @ id_arg) None) (construct_model pyd Edge)"

definition create_hyperedge :: "client_B \<Rightarrow> transport \<Rightarrow> request \<times> (py_error + b_value)" where
  "create_hyperedge self t =
     returning (B_post self t ''/memory/hyperedges'' None) (\<lambda>d. Inr (Raw d))"

definition get_hyperedge ::
  "client_B \<Rightarrow> transport \<Rightarrow> string \<Rightarrow> request \<times> (py_error + b_value)" where
  "get_hyperedge self t id_arg =
     returning (B_get self t (''/memory/hyperedges/'' @ id_arg) None) typing_Dict"

definition create_node_payload ::
  "string \<Rightarrow> string \<Rightarrow> dict option \<Rightarrow> dict option \<Rightarrow> string option \<Rightarrow> dict" where
  "create_node_payload idempotency_key type_arg data_arg metadata_arg id_arg =
     (let payload = [(''idempotency_key'', JStr idempotency_key), (''type'', JStr type_arg)];
          payload = (if truthy (opt_dict data_arg)
                     then AList.update ''data'' (opt_dict data_arg) payload else payload);
          payload = (if truthy (opt_dict metadata_arg)
                     then AList.update ''metadata'' (opt_dict metadata_arg) payload else payload);
          payload = (if truthy (opt_str id_arg)
                     then AList.update ''id'' (opt_str id_arg) payload else payload)
      in payload)"

definition create_node ::
  "client_B \<Rightarrow> transport \<Rightarrow> pydantic \<Rightarrow> string \<Rightarrow> string \<Rightarrow> dict option \<Rightarrow> dict option
     \<Rightarrow> string option \<Rightarrow> request \<times> (py_error + b_value)" where
  "create_node self t pyd idempotency_key type_arg data_arg metadata_arg id_arg =
     returning
       (B_post self t ''/memory/nodes''
          (Some (create_node_payload idempotency_key type_arg data_arg metadata_arg id_arg)))
       (construct_model pyd CreateNodeResponse)"

definition get_node ::
  "client_B \<Rightarrow> transport \<Rightarrow> pydantic \<Rightarrow> string \<Rightarrow> request \<times> (py_error + b_value)" where
  "get_node self t pyd id_arg =
     returning (B_get self t (''/memory/nodes/'' @ id_arg) None) (construct_model pyd Node)"

definition update_node ::
  "client_B \<Rightarrow> transport \<Rightarrow> string \<Rightarrow> request \<times> (py_error + b_value)" where
  "update_node self t id_arg =
     returning (B_post self t ''/memory/nodes/{id}'' None) (\<lambda>d. Inr (Raw d))"

definition get_node_edges ::
  "client_B \<Rightarrow> transport \<Rightarrow> string \<Rightarrow> request \<times> (py_error + b_value)" where
  "get_node_edges self t id_arg =
     returning (B_get self t (''/memory/nodes/'' @ id_arg @ ''/edges'') None) typing_Dict"

definition get_node_hyperedges ::
  "client_B \<Rightarrow> transport \<Rightarrow> string \<Rightarrow> request \<times> (py_error + b_value)" where
  "get_node_hyperedges self t id_arg =
     returning (B_get self t (''/memory/nodes/'' @ id_arg @ ''/hyperedges'') None) typing_Dict"

definition search_nodes ::
  "client_B \<Rightarrow> transport \<Rightarrow> pydantic \<Rightarrow> string \<Rightarrow> int \<Rightarrow> request \<times> (py_error + b_value)" where
  "search_nodes self t pyd query limit =
     returning
       (B_get self t ''/memory/search'' (Some [(''q'', JStr query), (''limit'', JInt limit)]))
       (construct_model pyd SearchResponse)"

definition interpret_payload :: "string \<Rightarrow> int option \<Rightarrow> dict" where
  "interpret_payload text_arg limit =
     (let payload = [(''text'', JStr text_arg)];
          payload = (if truthy (opt_int limit)
                     then AList.update ''limit'' (opt_int limit) payload else payload)
      in payload)"

definition interpret_text ::
  "client_B \<Rightarrow> transport \<Rightarrow> pydantic \<Rightarrow> string \<Rightarrow> int option
     \<Rightarrow> request \<times> (py_error + b_value)" where
  "interpret_text self t pyd text_arg limit =
     returning (B_post self t ''/oi/interpret'' (Some (interpret_payload text_arg limit)))
       (construct_model pyd InterpretResponse)"

definition get_openapi :: "client_B \<Rightarrow> transport \<Rightarrow> request \<times> (py_error + b_value)" where
  "get_openapi self t =
     returning (B_get self t ''/openapi.json'' None) typing_Dict"

subsection \<open>\<open>AsyncMathisonClient\<close>\<close>

text \<open>
  The asynchronous class repeats the synchronous one with \<open>await\<close> before each call of
  the httpx client and of its own helpers. A call issues its one request and resumes
  with the answer, so an awaited call is modelled as the call. The method \<open>interpret\<close>
  is \<open>interpret_text\<close> here and above.
\<close>

definition Async_init :: "string \<Rightarrow> string option \<Rightarrow> real \<Rightarrow> client_B" where
  "Async_init base_url_arg api_key_arg timeout_arg =
     \<lparr>base_url = rstrip base_url_arg ''/'',
      api_key = api_key_arg,
      timeout = timeout_arg,
      connection = \<lparr>client_timeout = timeout_arg, is_closed = False\<rparr>\<rparr>"

definition Async_close :: "client_B \<Rightarrow> client_B" where
  "Async_close self = self\<lparr>connection := (connection self)\<lparr>is_closed := True\<rparr>\<rparr>"

definition Async_aenter :: "client_B \<Rightarrow> client_B" where
  "Async_aenter self = self"

definition Async_aexit :: "client_B \<Rightarrow> py_error option \<Rightarrow> client_B" where
  "Async_aexit self exc_val = Async_close self"

definition Async_headers :: "client_B \<Rightarrow> (string \<times> string) list" where
  "Async_headers self =
     (let headers_v = [(''Content-Type'', ''application/json'')];
          headers_v = (if truthy (opt_str (api_key self))
                       then AList.update ''Authorization'' (''Bearer '' @ the (api_key self)) headers_v
                       else headers_v)
      in headers_v)"

definition Async_get ::
  "client_B \<Rightarrow> transport \<Rightarrow> string \<Rightarrow> dict option \<Rightarrow> request \<times> (py_error + json)" where
  "Async_get self t path params_arg =
     (let req = \<lparr>http_method = ''GET'', url = base_url self @ path, headers = Async_headers self,
                 json_body = None, params = params_arg, request_timeout = None\<rparr>
      in (req,
          case send_and_parse httpx_raise_for_status t req of
            Inl e \<Rightarrow> Inl (LibraryError e)
          | Inr d \<Rightarrow> Inr d))"

definition Async_post ::
  "client_B \<Rightarrow> transport \<Rightarrow> string \<Rightarrow> dict option \<Rightarrow> request \<times> (py_error + json)" where
  "Async_post self t path json_arg =
     (let req = \<lparr>http_method = ''POST'', url = base_url self @ path, headers = Async_headers self,
                 json_body = json_arg, params = None, request_timeout = None\<rparr>
      in (req,
          case send_and_parse httpx_raise_for_status t req of
            Inl e \<Rightarrow> Inl (LibraryError e)
          | Inr d \<Rightarrow> Inr d))"

definition async_get_genome ::
  "client_B \<Rightarrow> transport \<Rightarrow> pydantic \<Rightarrow> request \<times> (py_error + b_value)" where
  "async_get_genome self t pyd =
     returning (Async_get self t ''/genome'' None) (construct_model pyd GenomeMetadata)"

definition async_get_health ::
  "client_B \<Rightarrow> transport \<Rightarrow> pydantic \<Rightarrow> request \<times> (py_error + b_value)" where
  "async_get_health self t pyd =
     returning (Async_get self t ''/health'' None) (construct_model pyd HealthResponse)"

definition async_get_job_logs ::
  "client_B \<Rightarrow> transport \<Rightarrow> string option \<Rightarrow> int option \<Rightarrow> request \<times> (py_error + b_value)" where
  "async_get_job_logs self t job_id limit =
     returning (Async_get self t ''/jobs/logs'' None) typing_Dict"

definition async_resume_job :: "client_B \<Rightarrow> transport \<Rightarrow> request \<times> (py_error + b_value)" where
  "async_resume_job self t =
     returning (Async_post self t ''/jobs/resume'' None) (\<lambda>d. Inr (Raw d))"

definition async_run_job_payload :: "string \<Rightarrow> dict option \<Rightarrow> string option \<Rightarrow> dict" where
  "async_run_job_payload job_type inputs policy_id =
     (let payload = [(''jobType'', JStr job_type)];
          payload = (if truthy (opt_dict inputs)
                     then AList.update ''inputs'' (opt_dict inputs) payload else payload);
          payload = (if truthy (opt_str policy_id)
                     then AList.update ''policyId'' (opt_str policy_id) payload else payload)
      in payload)"

definition async_run_job ::
  "client_B \<Rightarrow> transport \<Rightarrow> pydantic \<Rightarrow> string \<Rightarrow> dict option \<Rightarrow> string option
     \<Rightarrow> request \<times> (py_error + b_value)" where
  "async_run_job self t pyd job_type inputs policy_id =
     returning (Async_post self t ''/jobs/run'' (Some (async_run_job_payload job_type inputs policy_id)))
       (construct_model pyd JobResult)"

definition async_get_job_status_params :: "string option \<Rightarrow> int option \<Rightarrow> dict" where
  "async_get_job_status_params job_id limit =
     (let params_v = [];
          params_v = (if truthy (opt_str job_id)
                      then AList.update ''job_id'' (opt_str job_id) params_v else params_v);
          params_v = (if truthy (opt_int limit)
                      then AList.update ''limit'' (opt_int limit) params_v else params_v)
      in params_v)"

definition async_get_job_status ::
  "client_B \<Rightarrow> transport \<Rightarrow> pydantic \<Rightarrow> string option \<Rightarrow> int option
     \<Rightarrow> request \<times> (py_error + b_value)" where
  "async_get_job_status self t pyd job_id limit =
     (let params_v = async_get_job_status_params job_id limit
      in returning
           (Async_get self t ''/jobs/status'' (if truthy (JObj params_v) then Some params_v else None))
           (\<lambda>data. and_then (contains data ''job_id'') (\<lambda>found.
              if found then construct_model pyd JobResult data else Inr (Raw data))))"

definition async_create_edge_payload ::
  "string \<Rightarrow> string \<Rightarrow> string \<Rightarrow> string \<Rightarrow> dict option \<Rightarrow> dict" where
  "async_create_edge_payload idempotency_key from_node to_node type_arg metadata_arg =
     (let payload = [(''idempotency_key'', JStr idempotency_key), (''from'', JStr from_node),
                     (''to'', JStr to_node), (''type'', JStr type_arg)];
          payload = (if truthy (opt_dict metadata_arg)
                     then AList.update ''metadata'' (opt_dict metadata_arg) payload else payload)
      in payload)"

definition async_create_edge ::
  "client_B \<Rightarrow> transport \<Rightarrow> pydantic \<Rightarrow> string \<Rightarrow> string \<Rightarrow> string \<Rightarrow> string \<Rightarrow> dict option
     \<Rightarrow> request \<times> (py_error + b_value)" where
  "async_create_edge self t pyd idempotency_key from_node to_node type_arg metadata_arg =
     returning
       (Async_post self t ''/memory/edges''
          (Some (async_create_edge_payload idempotency_key from_node to_node type_arg metadata_arg)))
       (construct_model pyd CreateEdgeResponse)"

definition async_get_edge ::
  "client_B \<Rightarrow> transport \<Rightarrow> pydantic \<Rightarrow> string \<Rightarrow> request \<times> (py_error + b_value)" where
  "async_get_edge self t pyd id_arg =
     returning (Async_get self t (''/memory/edges/'' @ id_arg) None) (construct_model pyd Edge)"

definition async_create_hyperedge :: "client_B \<Rightarrow> transport \<Rightarrow> request \<times> (py_error + b_value)" where
  "async_create_hyperedge self t =
     returning (Async_post self t ''/memory/hyperedges'' None) (\<lambda>d. Inr (Raw d))"

definition async_get_hyperedge ::
  "client_B \<Rightarrow> transport \<Rightarrow> string \<Rightarrow> request \<times> (py_error + b_value)" where
  "async_get_hyperedge self t id_arg =
     returning (Async_get self t (''/memory/hyperedges/'' @ id_arg) None) typing_Dict"

definition async_create_node_payload ::
  "string \<Rightarrow> string \<Rightarrow> dict option \<Rightarrow> dict option \<Rightarrow> string option \<Rightarrow> dict" where
  "async_create_node_payload idempotency_key type_arg data_arg metadata_arg id_arg =
     (let payload = [(''idempotency_key'', JStr idempotency_key), (''type'', JStr type_arg)];
          payload = (if truthy (opt_dict data_arg)
                     then AList.update ''data'' (opt_dict data_arg) payload else payload);
          payload = (if truthy (opt_dict metadata_arg)
                     then AList.update ''metadata'' (opt_dict metadata_arg) payload else payload);
          payload = (if truthy (opt_str id_arg)
                     then AList.update ''id'' (opt_str id_arg) payload else payload)
      in payload)"

definition async_create_node ::
  "client_B \<Rightarrow> transport \<Rightarrow> pydantic \<Rightarrow> string \<Rightarrow> string \<Rightarrow> dict option \<Rightarrow> dict option
     \<Rightarrow> string option \<Rightarrow> request \<times> (py_error + b_value)" where
  "async_create_node self t pyd idempotency_key type_arg data_arg metadata_arg id_arg =
     returning
       (Async_post self t ''/memory/nodes''
          (Some (async_create_node_payload idempotency_key type_arg data_arg metadata_arg id_arg)))
       (construct_model pyd CreateNodeResponse)"

definition async_get_node ::
  "client_B \<Rightarrow> transport \<Rightarrow> pydantic \<Rightarrow> string \<Rightarrow> request \<times> (py_error + b_value)" where
  "async_get_node self t pyd id_arg =
     returning (Async_get self t (''/memory/nodes/'' @ id_arg) None) (construct_model pyd Node)"

definition async_update_node ::
  "client_B \<Rightarrow> transport \<Rightarrow> string \<Rightarrow> request \<times> (py_error + b_value)" where
  "async_update_node self t id_arg =
     returning (Async_post self t ''/memory/nodes/{id}'' None) (\<lambda>d. Inr (Raw d))"

definition async_get_node_edges ::
  "client_B \<Rightarrow> transport \<Rightarrow> string \<Rightarrow> request \<times> (py_error + b_value)" where
  "async_get_node_edges self t id_arg =
     returning (Async_get self t (''/memory/nodes/'' @ id_arg @ ''/edges'') None) typing_Dict"

definition async_get_node_hyperedges ::
  "client_B \<Rightarrow> transport \<Rightarrow> string \<Rightarrow> request \<times> (py_error + b_value)" where
  "async_get_node_hyperedges self t id_arg =
     returning (Async_get self t (''/memory/nodes/'' @ id_arg @ ''/hyperedges'') None) typing_Dict"

definition async_search_nodes ::
  "client_B \<Rightarrow> transport \<Rightarrow> pydantic \<Rightarrow> string \<Rightarrow> int \<Rightarrow> request \<times> (py_error + b_value)" where
  "async_search_nodes self t pyd query limit =
     returning
       (Async_get self t ''/memory/search'' (Some [(''q'', JStr query), (''limit'', JInt limit)]))
       (construct_model pyd SearchResponse)"

definition async_interpret_payload :: "string \<Rightarrow> int option \<Rightarrow> dict" where
  "async_interpret_payload text_arg limit =
     (let payload = [(''text'', JStr text_arg)];
          payload = (if truthy (opt_int limit)
                     then AList.update ''limit'' (opt_int limit) payload else payload)
      in payload)"

definition async_interpret_text ::
  "client_B \<Rightarrow> transport \<Rightarrow> pydantic \<Rightarrow> string \<Rightarrow> int option
     \<Rightarrow> request \<times> (py_error + b_value)" where
  "async_interpret_text self t pyd text_arg limit =
     returning (Async_post self t ''/oi/interpret'' (Some (async_interpret_payload text_arg limit)))
       (construct_model pyd InterpretResponse)"

definition async_get_openapi :: "client_B \<Rightarrow> transport \<Rightarrow> request \<times> (py_error + b_value)" where
  "async_get_openapi self t =
     returning (Async_get self t ''/openapi.json'' None) typing_Dict"

section \<open>The text of \<open>client.py\<close> and its import\<close>

text \<open>
  Python reads a module before it defines anything in it. The part of its lexical
  analysis that matters here: outside a string literal and a comment, a backslash joins
  the line with the next one and must be the last character of its line, anything after
  it is a \<open>SyntaxError\<close> ("unexpected character after line continuation character");
  a string literal opened by one quote character ends on its line; one opened by three
  may run over lines; inside a literal a backslash escapes the next character. \<open>scan_line st l\<close>
  reads the physical line \<open>l\<close> from the state \<open>st\<close> the previous line left, and
  \<open>scan_lines\<close> gives the number of the first line that is refused, or the state at
  the end of the text.
\<close>

definition dquote :: char where
  "dquote = CHR 0x22"

definition squote :: char where
  "squote = CHR 0x27"

definition backslash :: char where
  "backslash = CHR 0x5C"

definition hash_sign :: char where
  "hash_sign = CHR 0x23"

datatype lex_state = Code | Str char | Triple char

datatype lex_result = LexError | Next lex_state

fun scan_line :: "lex_state \<Rightarrow> string \<Rightarrow> lex_result" where
  "scan_line Code [] = Next Code"
| "scan_line (Str q) [] = LexError"
| "scan_line (Triple q) [] = Next (Triple q)"
| "scan_line Code (c # cs) =
     (if c = hash_sign then Next Code
      else if c = backslash then (if cs = [] then Next Code else LexError)
      else if c = dquote \<or> c = squote then
        (if take 2 cs = [c, c] then scan_line (Triple c) (drop 2 cs) else scan_line (Str c) cs)
      else scan_line Code cs)"
| "scan_line (Str q) (c # cs) =
     (if c = backslash then (case cs of [] \<Rightarrow> Next (Str q) | d # ds \<Rightarrow> scan_line (Str q) ds)
      else if c = q then scan_line Code cs
      else scan_line (Str q) cs)"
| "scan_line (Triple q) (c # cs) =
     (if c = backslash then (case cs of [] \<Rightarrow> Next (Triple q) | d # ds \<Rightarrow> scan_line (Triple q) ds)
      else if c = q \<and> take 2 cs = [q, q] then scan_line Code (drop 2 cs)
      else scan_line (Triple q) cs)"

fun scan_lines :: "lex_state \<Rightarrow> nat \<Rightarrow> string list \<Rightarrow> nat + lex_state" where
  "scan_lines st n [] = Inr st"
| "scan_lines st n (l # ls) =
     (case scan_line st l of
        LexError \<Rightarrow> Inl n
      | Next st' \<Rightarrow> scan_lines st' (Suc n) ls)"

text \<open>
  \<open>import\<close> of a module with the given lines: a \<open>SyntaxError\<close> at the first line that
  is refused (or at the end, inside an open literal), and nothing of the module is
  defined then.
\<close>

definition python_import :: "string list \<Rightarrow> py_error + unit" where
  "python_import module_lines =
     (case scan_lines Code 1 module_lines of
        Inl n \<Rightarrow> Inl (SyntaxError n)
      | Inr st \<Rightarrow> if st = Code then Inr () else Inl (SyntaxError (length module_lines)))"

text \<open>
  A program that imports the module and then makes one call of a method of it: the
  requests it sends and its outcome. When the import raises, the call is never reached
  and no request is sent.
\<close>

definition importing ::
  "string list \<Rightarrow> request \<times> (py_error + 'a) \<Rightarrow> request list \<times> (py_error + 'a)" where
  "importing module_lines call =
     (case python_import module_lines of
        Inl e \<Rightarrow> ([], Inl e)
      | Inr u \<Rightarrow> ([fst call], snd call))"

text \<open>
  The text of \<open>version-one/sdks/python/mathison_sdk/client.py\<close>, line by line as it is
  in the repository (\<open>dquote\<close> is the double quote, \<open>backslash\<close> the backslash), in five parts:
  \<^item> \<open>client_py_header\<close>: the module docstring and the imports (lines 1 to 21);
  \<^item> \<open>client_py_sync_class\<close>: class MathisonClient up to its helper _post (lines 22 to 68);
  \<^item> \<open>client_py_sync_endpoints\<close>: the endpoint methods of MathisonClient (lines 69 to 145);
  \<^item> \<open>client_py_async_class\<close>: class AsyncMathisonClient up to its helper _post (lines 146 to 192);
  \<^item> \<open>client_py_async_endpoints\<close>: the endpoint methods of AsyncMathisonClient (lines 193 to 286).
\<close>

definition client_py_header :: "string list" where
  "client_py_header =
   [[dquote, dquote, dquote] @ ''Mathison SDK Client - HTTP Client for Mathison API''
      @ [dquote, dquote, dquote],
    [],
    ''from typing import Any, Dict, List, Optional'',
    ''import httpx'',
    [],
    ''from .models import ('',
    ''    HealthResponse,'',
    ''    GenomeMetadata,'',
    ''    Node,'',
    ''    Edge,'',
    ''    SearchResponse,'',
    ''    JobResult,'',
    ''    InterpretResponse,'',
    ''    CreateNodeRequest,'',
    ''    CreateEdgeRequest,'',
    ''    CreateNodeResponse,'',
    ''    CreateEdgeResponse,'',
    ''    Receipt,'',
    '')'',
    [],
    []]"

definition client_py_sync_class :: "string list" where
  "client_py_sync_class =
   [''class MathisonClient:'',
    ''    '' @ [dquote, dquote, dquote] @ ''Synchronous Mathison API Client.''
      @ [dquote, dquote, dquote],
    [],
    ''    def __init__('',
    ''        self,'',
    ''        base_url: str = '' @ [dquote] @ ''http://localhost:3000'' @ [dquote] @ '','',
    ''        api_key: Optional[str] = None,'',
    ''        timeout: float = 30.0,'',
    ''    ):'',
    ''        self.base_url = base_url.rstrip('' @ [dquote] @ ''/'' @ [dquote] @ '')'',
    ''        self.api_key = api_key'',
    ''        self.timeout = timeout'',
    ''        self._client = httpx.Client(timeout=timeout)'',
    [],
    ''    def __enter__(self):'',
    ''        return self'',
    [],
    ''    def __exit__(self, exc_type, exc_val, exc_tb):'',
    ''        self.close()'',
    [],
    ''    def close(self):'',
    ''        self._client.close()'',
    [],
    ''    def _headers(self) -> Dict[str, str]:'',
    ''        headers = {'' @ [dquote] @ ''Content-Type'' @ [dquote] @ '': '' @ [dquote]
      @ ''application/json'' @ [dquote] @ ''}'',
    ''        if self.api_key:'',
    ''            headers['' @ [dquote] @ ''Authorization'' @ [dquote] @ ''] = f'' @ [dquote]
      @ ''Bearer {self.api_key}'' @ [dquote],
    ''        return headers'',
    [],
    ''    def _get(self, path: str, params: Optional[Dict] = None) -> Any:'',
    ''        response = self._client.get('',
    ''            f'' @ [dquote] @ ''{self.base_url}{path}'' @ [dquote] @ '','',
    ''            headers=self._headers(),'',
    ''            params=params,'',
    ''        )'',
    ''        response.raise_for_status()'',
    ''        return response.json()'',
    [],
    ''    def _post(self, path: str, json: Optional[Dict] = None) -> Any:'',
    ''        response = self._client.post('',
    ''            f'' @ [dquote] @ ''{self.base_url}{path}'' @ [dquote] @ '','',
    ''            headers=self._headers(),'',
    ''            json=json,'',
    ''        )'',
    ''        response.raise_for_status()'',
    ''        return response.json()'',
    []]"

definition client_py_sync_endpoints :: "string list" where
  "client_py_sync_endpoints =
   [''    def get_genome(self) -> GenomeMetadata:'',
    ''        '' @ [dquote, dquote, dquote] @ ''Get active genome metadata''
      @ [dquote, dquote, dquote],
    ''        data = self._get('' @ [dquote] @ ''/genome'' @ [dquote] @ '')'',
    ''        return GenomeMetadata(**data)'' @ [backslash] @ ''n'' @ [backslash]
      @ ''n    def get_health(self) -> HealthResponse:'',
    ''        '' @ [dquote, dquote, dquote] @ ''Health check'' @ [dquote, dquote, dquote],
    ''        data = self._get('' @ [dquote] @ ''/health'' @ [dquote] @ '')'',
    ''        return HealthResponse(**data)'' @ [backslash] @ ''n'' @ [backslash]
      @ ''n    def get_job_logs(self, job_id: Optional[str] = None, limit: Optional[int] = None) -> Dict[str, Any]:'',
    ''        '' @ [dquote, dquote, dquote] @ ''Get job logs/receipts''
      @ [dquote, dquote, dquote],
    ''        data = self._get('' @ [dquote] @ ''/jobs/logs'' @ [dquote] @ '')'',
    ''        return Dict[str, Any](**data)'' @ [backslash] @ ''n'' @ [backslash]
      @ ''n    def resume_job(self) -> Dict[str, Any]:'',
    ''        '' @ [dquote, dquote, dquote] @ ''Resume a suspended job''
      @ [dquote, dquote, dquote],
    ''        return self._post('' @ [dquote] @ ''/jobs/resume'' @ [dquote] @ '')''
      @ [backslash] @ ''n'' @ [backslash]
      @ ''n    def run_job(self, job_type: str, inputs: Optional[Dict] = None, policy_id: Optional[str] = None) -> JobResult:'',
    ''        '' @ [dquote, dquote, dquote] @ ''Run a job'' @ [dquote, dquote, dquote],
    ''        payload = {'' @ [dquote] @ ''jobType'' @ [dquote] @ '': job_type}'',
    ''        if inputs:'',
    ''            payload['' @ [dquote] @ ''inputs'' @ [dquote] @ ''] = inputs'',
    ''        if policy_id:'',
    ''            payload['' @ [dquote] @ ''policyId'' @ [dquote] @ ''] = policy_id'',
    ''        data = self._post('' @ [dquote] @ ''/jobs/run'' @ [dquote] @ '', json=payload)'',
    ''        return JobResult(**data)'' @ [backslash] @ ''n'' @ [backslash]
      @ ''n    def get_job_status(self, job_id: Optional[str] = None, limit: Optional[int] = None) -> JobResult:'',
    ''        '' @ [dquote, dquote, dquote] @ ''Get job status'' @ [dquote, dquote, dquote],
    ''        params = {}'',
    ''        if job_id:'',
    ''            params['' @ [dquote] @ ''job_id'' @ [dquote] @ ''] = job_id'',
    ''        if limit:'',
    ''            params['' @ [dquote] @ ''limit'' @ [dquote] @ ''] = limit'',
    ''        data = self._get('' @ [dquote] @ ''/jobs/status'' @ [dquote]
      @ '', params=params if params else None)'',
    ''        return JobResult(**data) if '' @ [dquote] @ ''job_id'' @ [dquote]
      @ '' in data else data'' @ [backslash] @ ''n'' @ [backslash]
      @ ''n    def create_edge(self, idempotency_key: str, from_node: str, to_node: str, type: str, metadata: Optional[Dict] = None) -> Dict[str, Any]:'',
    ''        '' @ [dquote, dquote, dquote] @ ''Create a new edge'' @ [dquote, dquote, dquote],
    ''        payload = {'' @ [dquote] @ ''idempotency_key'' @ [dquote]
      @ '': idempotency_key, '' @ [dquote] @ ''from'' @ [dquote] @ '': from_node, '' @ [dquote]
      @ ''to'' @ [dquote] @ '': to_node, '' @ [dquote] @ ''type'' @ [dquote] @ '': type}'',
    ''        if metadata:'',
    ''            payload['' @ [dquote] @ ''metadata'' @ [dquote] @ ''] = metadata'',
    ''        data = self._post('' @ [dquote] @ ''/memory/edges'' @ [dquote]
      @ '', json=payload)'',
    ''        return CreateEdgeResponse(**data)'' @ [backslash] @ ''n'' @ [backslash]
      @ ''n    def get_edge(self, id: str) -> Edge:'',
    ''        '' @ [dquote, dquote, dquote] @ ''Get edge by ID'' @ [dquote, dquote, dquote],
    ''        data = self._get(f'' @ [dquote] @ ''/memory/edges/{id}'' @ [dquote] @ '')'',
    ''        return Edge(**data)'' @ [backslash] @ ''n'' @ [backslash]
      @ ''n    def create_hyperedge(self) -> Dict[str, Any]:'',
    ''        '' @ [dquote, dquote, dquote] @ ''Create a new hyperedge''
      @ [dquote, dquote, dquote],
    ''        return self._post('' @ [dquote] @ ''/memory/hyperedges'' @ [dquote] @ '')''
      @ [backslash] @ ''n'' @ [backslash]
      @ ''n    def get_hyperedge(self, id: str) -> Dict[str, Any]:'',
    ''        '' @ [dquote, dquote, dquote] @ ''Get hyperedge by ID'' @ [dquote, dquote, dquote],
    ''        data = self._get(f'' @ [dquote] @ ''/memory/hyperedges/{id}'' @ [dquote] @ '')'',
    ''        return Dict[str, Any](**data)'' @ [backslash] @ ''n'' @ [backslash]
      @ ''n    def create_node(self, idempotency_key: str, type: str, data: Optional[Dict] = None, metadata: Optional[Dict] = None, id: Optional[str] = None) -> CreateNodeResponse:'',
    ''        '' @ [dquote, dquote, dquote] @ ''Create a new node'' @ [dquote, dquote, dquote],
    ''        payload = {'' @ [dquote] @ ''idempotency_key'' @ [dquote]
      @ '': idempotency_key, '' @ [dquote] @ ''type'' @ [dquote] @ '': type}'',
    ''        if data:'',
    ''            payload['' @ [dquote] @ ''data'' @ [dquote] @ ''] = data'',
    ''        if metadata:'',
    ''            payload['' @ [dquote] @ ''metadata'' @ [dquote] @ ''] = metadata'',
    ''        if id:'',
    ''            payload['' @ [dquote] @ ''id'' @ [dquote] @ ''] = id'',
    ''        data = self._post('' @ [dquote] @ ''/memory/nodes'' @ [dquote]
      @ '', json=payload)'',
    ''        return CreateNodeResponse(**data)'' @ [backslash] @ ''n'' @ [backslash]
      @ ''n    def get_node(self, id: str) -> Node:'',
    ''        '' @ [dquote, dquote, dquote] @ ''Get node by ID'' @ [dquote, dquote, dquote],
    ''        data = self._get(f'' @ [dquote] @ ''/memory/nodes/{id}'' @ [dquote] @ '')'',
    ''        return Node(**data)'' @ [backslash] @ ''n'' @ [backslash]
      @ ''n    def update_node(self, id: str) -> Dict[str, Any]:'',
    ''        '' @ [dquote, dquote, dquote] @ ''Update node by ID'' @ [dquote, dquote, dquote],
    ''        return self._post('' @ [dquote] @ ''/memory/nodes/{id}'' @ [dquote] @ '')''
      @ [backslash] @ ''n'' @ [backslash]
      @ ''n    def get_node_edges(self, id: str) -> Dict[str, Any]:'',
    ''        '' @ [dquote, dquote, dquote] @ ''Get edges for node'' @ [dquote, dquote, dquote],
    ''        data = self._get(f'' @ [dquote] @ ''/memory/nodes/{id}/edges'' @ [dquote] @ '')'',
    ''        return Dict[str, Any](**data)'' @ [backslash] @ ''n'' @ [backslash]
      @ ''n    def get_node_hyperedges(self, id: str) -> Dict[str, Any]:'',
    ''        '' @ [dquote, dquote, dquote] @ ''Get hyperedges for node''
      @ [dquote, dquote, dquote],
    ''        data = self._get(f'' @ [dquote] @ ''/memory/nodes/{id}/hyperedges'' @ [dquote]
      @ '')'',
    ''        return Dict[str, Any](**data)'' @ [backslash] @ ''n'' @ [backslash]
      @ ''n    def search_nodes(self, query: str, limit: int = 10) -> SearchResponse:'',
    ''        '' @ [dquote, dquote, dquote] @ ''Search nodes'' @ [dquote, dquote, dquote],
    ''        data = self._get('' @ [dquote] @ ''/memory/search'' @ [dquote] @ '', params={''
      @ [dquote] @ ''q'' @ [dquote] @ '': query, '' @ [dquote] @ ''limit'' @ [dquote]
      @ '': limit})'',
    ''        return SearchResponse(**data)'' @ [backslash] @ ''n'' @ [backslash]
      @ ''n    def interpret(self, text: str, limit: Optional[int] = None) -> InterpretResponse:'',
    ''        '' @ [dquote, dquote, dquote] @ ''Interpret text using memory context''
      @ [dquote, dquote, dquote],
    ''        payload = {'' @ [dquote] @ ''text'' @ [dquote] @ '': text}'',
    ''        if limit:'',
    ''            payload['' @ [dquote] @ ''limit'' @ [dquote] @ ''] = limit'',
    ''        data = self._post('' @ [dquote] @ ''/oi/interpret'' @ [dquote]
      @ '', json=payload)'',
    ''        return InterpretResponse(**data)'' @ [backslash] @ ''n'' @ [backslash]
      @ ''n    def get_openapi(self) -> Dict[str, Any]:'',
    ''        '' @ [dquote, dquote, dquote] @ ''OpenAPI specification''
      @ [dquote, dquote, dquote],
    ''        data = self._get('' @ [dquote] @ ''/openapi.json'' @ [dquote] @ '')'',
    ''        return Dict[str, Any](**data)'',
    [],
    []]"

definition client_py_async_class :: "string list" where
  "client_py_async_class =
   [''class AsyncMathisonClient:'',
    ''    '' @ [dquote, dquote, dquote] @ ''Asynchronous Mathison API Client.''
      @ [dquote, dquote, dquote],
    [],
    ''    def __init__('',
    ''        self,'',
    ''        base_url: str = '' @ [dquote] @ ''http://localhost:3000'' @ [dquote] @ '','',
    ''        api_key: Optional[str] = None,'',
    ''        timeout: float = 30.0,'',
    ''    ):'',
    ''        self.base_url = base_url.rstrip('' @ [dquote] @ ''/'' @ [dquote] @ '')'',
    ''        self.api_key = api_key'',
    ''        self.timeout = timeout'',
    ''        self._client = httpx.AsyncClient(timeout=timeout)'',
    [],
    ''    async def __aenter__(self):'',
    ''        return self'',
    [],
    ''    async def __aexit__(self, exc_type, exc_val, exc_tb):'',
    ''        await self.close()'',
    [],
    ''    async def close(self):'',
    ''        await self._client.aclose()'',
    [],
    ''    def _headers(self) -> Dict[str, str]:'',
    ''        headers = {'' @ [dquote] @ ''Content-Type'' @ [dquote] @ '': '' @ [dquote]
      @ ''application/json'' @ [dquote] @ ''}'',
    ''        if self.api_key:'',
    ''            headers['' @ [dquote] @ ''Authorization'' @ [dquote] @ ''] = f'' @ [dquote]
      @ ''Bearer {self.api_key}'' @ [dquote],
    ''        return headers'',
    [],
    ''    async def _get(self, path: str, params: Optional[Dict] = None) -> Any:'',
    ''        response = await self._client.get('',
    ''            f'' @ [dquote] @ ''{self.base_url}{path}'' @ [dquote] @ '','',
    ''            headers=self._headers(),'',
    ''            params=params,'',
    ''        )'',
    ''        response.raise_for_status()'',
    ''        return response.json()'',
    [],
    ''    async def _post(self, path: str, json: Optional[Dict] = None) -> Any:'',
    ''        response = await self._client.post('',
    ''            f'' @ [dquote] @ ''{self.base_url}{path}'' @ [dquote] @ '','',
    ''            headers=self._headers(),'',
    ''            json=json,'',
    ''        )'',
    ''        response.raise_for_status()'',
    ''        return response.json()'',
    []]"

definition client_py_async_endpoints :: "string list" where
  "client_py_async_endpoints =
   [''    async def get_genome(self) -> GenomeMetadata:'',
    ''        '' @ [dquote, dquote, dquote] @ ''Get active genome metadata''
      @ [dquote, dquote, dquote],
    ''        '',
    ''        data = await self._get('' @ [dquote] @ ''/genome'' @ [dquote] @ '')'',
    ''        return GenomeMetadata(**data)'' @ [backslash] @ ''n'' @ [backslash]
      @ ''n    async def get_health(self) -> HealthResponse:'',
    ''        '' @ [dquote, dquote, dquote] @ ''Health check'' @ [dquote, dquote, dquote],
    ''        '',
    ''        data = await self._get('' @ [dquote] @ ''/health'' @ [dquote] @ '')'',
    ''        return HealthResponse(**data)'' @ [backslash] @ ''n'' @ [backslash]
      @ ''n    async def get_job_logs(self, job_id: Optional[str] = None, limit: Optional[int] = None) -> Dict[str, Any]:'',
    ''        '' @ [dquote, dquote, dquote] @ ''Get job logs/receipts''
      @ [dquote, dquote, dquote],
    ''        '',
    ''        data = await self._get('' @ [dquote] @ ''/jobs/logs'' @ [dquote] @ '')'',
    ''        return Dict[str, Any](**data)'' @ [backslash] @ ''n'' @ [backslash]
      @ ''n    async def resume_job(self) -> Dict[str, Any]:'',
    ''        '' @ [dquote, dquote, dquote] @ ''Resume a suspended job''
      @ [dquote, dquote, dquote],
    ''        '',
    ''        return await self._post('' @ [dquote] @ ''/jobs/resume'' @ [dquote] @ '')''
      @ [backslash] @ ''n'' @ [backslash]
      @ ''n    async def run_job(self, job_type: str, inputs: Optional[Dict] = None, policy_id: Optional[str] = None) -> JobResult:'',
    ''        '' @ [dquote, dquote, dquote] @ ''Run a job'' @ [dquote, dquote, dquote],
    ''        '',
    ''        payload = {'' @ [dquote] @ ''jobType'' @ [dquote] @ '': job_type}'',
    ''        if inputs:'',
    ''            payload['' @ [dquote] @ ''inputs'' @ [dquote] @ ''] = inputs'',
    ''        if policy_id:'',
    ''            payload['' @ [dquote] @ ''policyId'' @ [dquote] @ ''] = policy_id'',
    ''        data = await self._post('' @ [dquote] @ ''/jobs/run'' @ [dquote]
      @ '', json=payload)'',
    ''        return JobResult(**data)'' @ [backslash] @ ''n'' @ [backslash]
      @ ''n    async def get_job_status(self, job_id: Optional[str] = None, limit: Optional[int] = None) -> JobResult:'',
    ''        '' @ [dquote, dquote, dquote] @ ''Get job status'' @ [dquote, dquote, dquote],
    ''        '',
    ''        params = {}'',
    ''        if job_id:'',
    ''            params['' @ [dquote] @ ''job_id'' @ [dquote] @ ''] = job_id'',
    ''        if limit:'',
    ''            params['' @ [dquote] @ ''limit'' @ [dquote] @ ''] = limit'',
    ''        data = await self._get('' @ [dquote] @ ''/jobs/status'' @ [dquote]
      @ '', params=params if params else None)'',
    ''        return JobResult(**data) if '' @ [dquote] @ ''job_id'' @ [dquote]
      @ '' in data else data'' @ [backslash] @ ''n'' @ [backslash]
      @ ''n    async def create_edge(self, idempotency_key: str, from_node: str, to_node: str, type: str, metadata: Optional[Dict] = None) -> Dict[str, Any]:'',
    ''        '' @ [dquote, dquote, dquote] @ ''Create a new edge'' @ [dquote, dquote, dquote],
    ''        '',
    ''        payload = {'' @ [dquote] @ ''idempotency_key'' @ [dquote]
      @ '': idempotency_key, '' @ [dquote] @ ''from'' @ [dquote] @ '': from_node, '' @ [dquote]
      @ ''to'' @ [dquote] @ '': to_node, '' @ [dquote] @ ''type'' @ [dquote] @ '': type}'',
    ''        if metadata:'',
    ''            payload['' @ [dquote] @ ''metadata'' @ [dquote] @ ''] = metadata'',
    ''        data = await self._post('' @ [dquote] @ ''/memory/edges'' @ [dquote]
      @ '', json=payload)'',
    ''        return CreateEdgeResponse(**data)'' @ [backslash] @ ''n'' @ [backslash]
      @ ''n    async def get_edge(self, id: str) -> Edge:'',
    ''        '' @ [dquote, dquote, dquote] @ ''Get edge by ID'' @ [dquote, dquote, dquote],
    ''        '',
    ''        data = await self._get(f'' @ [dquote] @ ''/memory/edges/{id}'' @ [dquote] @ '')'',
    ''        return Edge(**data)'' @ [backslash] @ ''n'' @ [backslash]
      @ ''n    async def create_hyperedge(self) -> Dict[str, Any]:'',
    ''        '' @ [dquote, dquote, dquote] @ ''Create a new hyperedge''
      @ [dquote, dquote, dquote],
    ''        '',
    ''        return await self._post('' @ [dquote] @ ''/memory/hyperedges'' @ [dquote] @ '')''
      @ [backslash] @ ''n'' @ [backslash]
      @ ''n    async def get_hyperedge(self, id: str) -> Dict[str, Any]:'',
    ''        '' @ [dquote, dquote, dquote] @ ''Get hyperedge by ID'' @ [dquote, dquote, dquote],
    ''        '',
    ''        data = await self._get(f'' @ [dquote] @ ''/memory/hyperedges/{id}'' @ [dquote]
      @ '')'',
    ''        return Dict[str, Any](**data)'' @ [backslash] @ ''n'' @ [backslash]
      @ ''n    async def create_node(self, idempotency_key: str, type: str, data: Optional[Dict] = None, metadata: Optional[Dict] = None, id: Optional[str] = None) -> CreateNodeResponse:'',
    ''        '' @ [dquote, dquote, dquote] @ ''Create a new node'' @ [dquote, dquote, dquote],
    ''        '',
    ''        payload = {'' @ [dquote] @ ''idempotency_key'' @ [dquote]
      @ '': idempotency_key, '' @ [dquote] @ ''type'' @ [dquote] @ '': type}'',
    ''        if data:'',
    ''            payload['' @ [dquote] @ ''data'' @ [dquote] @ ''] = data'',
    ''        if metadata:'',
    ''            payload['' @ [dquote] @ ''metadata'' @ [dquote] @ ''] = metadata'',
    ''        if id:'',
    ''            payload['' @ [dquote] @ ''id'' @ [dquote] @ ''] = id'',
    ''        data = await self._post('' @ [dquote] @ ''/memory/nodes'' @ [dquote]
      @ '', json=payload)'',
    ''        return CreateNodeResponse(**data)'' @ [backslash] @ ''n'' @ [backslash]
      @ ''n    async def get_node(self, id: str) -> Node:'',
    ''        '' @ [dquote, dquote, dquote] @ ''Get node by ID'' @ [dquote, dquote, dquote],
    ''        '',
    ''        data = await self._get(f'' @ [dquote] @ ''/memory/nodes/{id}'' @ [dquote] @ '')'',
    ''        return Node(**data)'' @ [backslash] @ ''n'' @ [backslash]
      @ ''n    async def update_node(self, id: str) -> Dict[str, Any]:'',
    ''        '' @ [dquote, dquote, dquote] @ ''Update node by ID'' @ [dquote, dquote, dquote],
    ''        '',
    ''        return await self._post('' @ [dquote] @ ''/memory/nodes/{id}'' @ [dquote] @ '')''
      @ [backslash] @ ''n'' @ [backslash]
      @ ''n    async def get_node_edges(self, id: str) -> Dict[str, Any]:'',
    ''        '' @ [dquote, dquote, dquote] @ ''Get edges for node'' @ [dquote, dquote, dquote],
    ''        '',
    ''        data = await self._get(f'' @ [dquote] @ ''/memory/nodes/{id}/edges'' @ [dquote]
      @ '')'',
    ''        return Dict[str, Any](**data)'' @ [backslash] @ ''n'' @ [backslash]
      @ ''n    async def get_node_hyperedges(self, id: str) -> Dict[str, Any]:'',
    ''        '' @ [dquote, dquote, dquote] @ ''Get hyperedges for node''
      @ [dquote, dquote, dquote],
    ''        '',
    ''        data = await self._get(f'' @ [dquote] @ ''/memory/nodes/{id}/hyperedges''
      @ [dquote] @ '')'',
    ''        return Dict[str, Any](**data)'' @ [backslash] @ ''n'' @ [backslash]
      @ ''n    async def search_nodes(self, query: str, limit: int = 10) -> SearchResponse:'',
    ''        '' @ [dquote, dquote, dquote] @ ''Search nodes'' @ [dquote, dquote, dquote],
    ''        '',
    ''        data = await self._get('' @ [dquote] @ ''/memory/search'' @ [dquote]
      @ '', params={'' @ [dquote] @ ''q'' @ [dquote] @ '': query, '' @ [dquote] @ ''limit''
      @ [dquote] @ '': limit})'',
    ''        return SearchResponse(**data)'' @ [backslash] @ ''n'' @ [backslash]
      @ ''n    async def interpret(self, text: str, limit: Optional[int] = None) -> InterpretResponse:'',
    ''        '' @ [dquote, dquote, dquote] @ ''Interpret text using memory context''
      @ [dquote, dquote, dquote],
    ''        '',
    ''        payload = {'' @ [dquote] @ ''text'' @ [dquote] @ '': text}'',
    ''        if limit:'',
    ''            payload['' @ [dquote] @ ''limit'' @ [dquote] @ ''] = limit'',
    ''        data = await self._post('' @ [dquote] @ ''/oi/interpret'' @ [dquote]
      @ '', json=payload)'',
    ''        return InterpretResponse(**data)'' @ [backslash] @ ''n'' @ [backslash]
      @ ''n    async def get_openapi(self) -> Dict[str, Any]:'',
    ''        '' @ [dquote, dquote, dquote] @ ''OpenAPI specification''
      @ [dquote, dquote, dquote],
    ''        '',
    ''        data = await self._get('' @ [dquote] @ ''/openapi.json'' @ [dquote] @ '')'',
    ''        return Dict[str, Any](**data)'',
    []]"

definition client_py_lines :: "string list" where
  "client_py_lines =
     client_py_header @ client_py_sync_class @ client_py_sync_endpoints
     @ client_py_async_class @ client_py_async_endpoints"

section \<open>Scoped use of a client\<close>

text \<open>
  Python's \<open>with obj as c: block\<close>. The class's \<open>__enter__\<close> and \<open>__exit__\<close> are looked
  up first; when the class defines neither the statement raises before the block runs
  (\<open>TypeError\<close> from Python 3.11 on, \<open>AttributeError\<close> before). Otherwise the block runs on
  what \<open>__enter__\<close> returns, and \<open>__exit__\<close> runs whether the block returned or raised.
  The \<open>__exit__\<close> methods of this code return \<open>None\<close>, so an exception of the block
  propagates after \<open>__exit__\<close>. The block is a function of the client's state, returning
  the state it leaves and its outcome.
\<close>

definition with_statement ::
  "('c \<Rightarrow> 'c) option \<Rightarrow> ('c \<Rightarrow> py_error option \<Rightarrow> 'c) option \<Rightarrow> 'c
     \<Rightarrow> ('c \<Rightarrow> 'c \<times> (py_error + 'a)) \<Rightarrow> 'c \<times> (py_error + 'a)" where
  "with_statement enter_method exit_method self block =
     (case enter_method of
        None \<Rightarrow> (self, Inl (TypeError NoContextManager))
      | Some enter \<Rightarrow>
          (case exit_method of
             None \<Rightarrow> (self, Inl (TypeError NoContextManager))
           | Some exit \<Rightarrow>
               (let entered = enter self;
                    ran = block entered;
                    exc_val = (case snd ran of Inl e \<Rightarrow> Some e | Inr v \<Rightarrow> None)
                in (exit (fst ran) exc_val, snd ran))))"

text \<open>
  The special methods each class defines. Client A's \<open>MathisonClient\<close> defines
  \<open>__init__\<close>, \<open>_request\<close> and the endpoint methods only: no \<open>__enter__\<close>, no
  \<open>__exit__\<close>, no \<open>close\<close>.
\<close>

definition A_enter_method :: "(client_A \<Rightarrow> client_A) option" where
  "A_enter_method = None"

definition A_exit_method :: "(client_A \<Rightarrow> py_error option \<Rightarrow> client_A) option" where
  "A_exit_method = None"

definition B_enter_method :: "(client_B \<Rightarrow> client_B) option" where
  "B_enter_method = Some B_enter"

definition B_exit_method :: "(client_B \<Rightarrow> py_error option \<Rightarrow> client_B) option" where
  "B_exit_method = Some B_exit"

definition Async_enter_method :: "(client_B \<Rightarrow> client_B) option" where
  "Async_enter_method = Some Async_aenter"

definition Async_exit_method :: "(client_B \<Rightarrow> py_error option \<Rightarrow> client_B) option" where
  "Async_exit_method = Some Async_aexit"

section \<open>Observing a call\<close>

text \<open>The request a call sent, and the exception it raised, if any.\<close>

definition error_of :: "request \<times> (py_error + 'a) \<Rightarrow> request \<times> py_error option" where
  "error_of call = (fst call, case snd call of Inl e \<Rightarrow> Some e | Inr v \<Rightarrow> None)"

text \<open>
  For concrete runs: a mocked transport that gives the same answer to every request, a
  pydantic that accepts the keyword arguments as the fields, and the block
  \<open>client.health()\<close> of a \<open>with\<close> statement on Client A.
\<close>

definition mock_transport :: "reply \<Rightarrow> transport" where
  "mock_transport r = (\<lambda>req. r)"

definition accept_fields :: pydantic where
  "accept_fields cls kvs = Inr kvs"

definition health_block :: "transport \<Rightarrow> client_A \<Rightarrow> client_A \<times> (py_error + json)" where
  "health_block t client = (client, snd (health client t))"

section \<open>Construction: the stored base URL\<close>

lemma mock_transport_apply [simp]: "mock_transport r req = r"
  by (simp add: mock_transport_def)

lemma rstrip_unchanged:
  assumes "s = [] \<or> last s \<noteq> c"
  shows "rstrip s [c] = s"
proof (cases s rule: rev_cases)
  case Nil
  then show ?thesis by (simp add: rstrip_def)
next
  case (snoc ys y)
  with assms have "y \<noteq> c" by simp
  with snoc show ?thesis by (simp add: rstrip_def)
qed

lemma rstrip_one:
  assumes "s = [] \<or> last s \<noteq> c"
  shows "rstrip (s @ [c]) [c] = s"
proof -
  have "rstrip (s @ [c]) [c] = rstrip s [c]"
    by (simp add: rstrip_def)
  then show ?thesis using rstrip_unchanged [OF assms] by simp
qed

text \<open>
  C4. For each of the three constructors, a \<open>base_url\<close> argument that does not end in a
  slash is stored unchanged, and one that ends in exactly one slash (written \<open>s @ "/"\<close>
  with \<open>s\<close> not ending in a slash) is stored with that slash removed.
\<close>

theorem C4_base_url_stripped_once:
  assumes "s = [] \<or> last s \<noteq> CHR ''/''"
  shows "base_url (A_init s k n) = s \<and> base_url (B_init s k r) = s
       \<and> base_url (Async_init s k r) = s
       \<and> base_url (A_init (s @ ''/'') k n) = s \<and> base_url (B_init (s @ ''/'') k r) = s
       \<and> base_url (Async_init (s @ ''/'') k r) = s"
  using rstrip_unchanged [OF assms] rstrip_one [OF assms]
  by (simp add: A_init_def B_init_def Async_init_def Let_def)

theorem C4_base_url_stripped_once_witness:
  "base_url (A_init ''http://localhost:3000'' None 30) = ''http://localhost:3000''
   \<and> base_url (A_init ''http://localhost:3000/'' None 30) = ''http://localhost:3000''
   \<and> base_url (B_init ''http://localhost:3000/'' None 30) = ''http://localhost:3000''
   \<and> base_url (Async_init ''http://localhost:3000/'' (Some ''k'') 30) = ''http://localhost:3000''"
  using C4_base_url_stripped_once [of "''http://localhost:3000''" None 30 30]
    C4_base_url_stripped_once [of "''http://localhost:3000''" "Some ''k''" 30 30]
  by simp

section \<open>What a call sends and what it returns\<close>

lemma fst_returning: "fst (returning call f) = fst call"
  by (simp add: returning_def)

lemma snd_returning: "snd (returning call f) = and_then (snd call) f"
  by (simp add: returning_def)

lemma fst_A_request:
  "fst (A_request self t m p j q) =
     \<lparr>http_method = m, url = base_url self @ p, headers = session_headers (connection self),
      json_body = j,
      params = (if truthy (opt_dict q) then Some (filter (\<lambda>kv. snd kv \<noteq> JNull) (the q)) else q),
      request_timeout = Some (timeout self)\<rparr>"
  by (simp add: A_request_def Let_def)

lemma snd_A_request:
  "snd (A_request self t m p j q) =
     (case send_and_parse requests_raise_for_status t (fst (A_request self t m p j q)) of
        Inl e \<Rightarrow> Inl (RequestFailed e) | Inr d \<Rightarrow> Inr d)"
  by (simp add: A_request_def Let_def)

lemma fst_B_get:
  "fst (B_get self t p q) =
     \<lparr>http_method = ''GET'', url = base_url self @ p, headers = B_headers self,
      json_body = None, params = q, request_timeout = None\<rparr>"
  by (simp add: B_get_def Let_def)

lemma fst_B_post:
  "fst (B_post self t p j) =
     \<lparr>http_method = ''POST'', url = base_url self @ p, headers = B_headers self,
      json_body = j, params = None, request_timeout = None\<rparr>"
  by (simp add: B_post_def Let_def)

lemma fst_Async_get:
  "fst (Async_get self t p q) =
     \<lparr>http_method = ''GET'', url = base_url self @ p, headers = Async_headers self,
      json_body = None, params = q, request_timeout = None\<rparr>"
  by (simp add: Async_get_def Let_def)

lemma fst_Async_post:
  "fst (Async_post self t p j) =
     \<lparr>http_method = ''POST'', url = base_url self @ p, headers = Async_headers self,
      json_body = j, params = None, request_timeout = None\<rparr>"
  by (simp add: Async_post_def Let_def)

lemmas sent = fst_returning fst_A_request fst_B_get fst_B_post fst_Async_get fst_Async_post

section \<open>Client A: optional arguments in the query\<close>

lemma query_beams_params:
  "params (fst (query_beams self t text_arg tags_arg kinds include_dead limit)) =
     Some (filter (\<lambda>kv. snd kv \<noteq> JNull)
       [(''text'', opt_str text_arg), (''tags'', opt_str_list tags_arg),
        (''kinds'', opt_str_list kinds), (''include_dead'', opt_bool include_dead),
        (''limit'', opt_int limit)])"
  by (simp add: query_beams_def sent opt_dict_def)

lemma get_chat_history_params:
  "params (fst (get_chat_history self t limit offset)) =
     Some (filter (\<lambda>kv. snd kv \<noteq> JNull)
       [(''limit'', opt_int limit), (''offset'', opt_int offset)])"
  by (simp add: get_chat_history_def sent opt_dict_def)

lemma opt_null [simp]:
  "opt_str a = JNull \<longleftrightarrow> a = None"
  "opt_str_list b = JNull \<longleftrightarrow> b = None"
  "opt_bool c = JNull \<longleftrightarrow> c = None"
  "opt_int d = JNull \<longleftrightarrow> d = None"
  "JNull = opt_str a \<longleftrightarrow> a = None"
  "JNull = opt_str_list b \<longleftrightarrow> b = None"
  "JNull = opt_bool c \<longleftrightarrow> c = None"
  "JNull = opt_int d \<longleftrightarrow> d = None"
  by (simp_all add: opt_str_def opt_str_list_def str_list_def opt_bool_def opt_int_def
      split: option.splits)

text \<open>
  C5. In \<open>query_beams\<close> and \<open>get_chat_history\<close>, an optional argument left as \<open>None\<close>
  does not appear among the keys of the outgoing query parameters, and no parameter is
  sent with a null value.
\<close>

theorem C5_omitted_argument_not_sent:
  "(\<exists>q. params (fst (query_beams self t text_arg tags_arg kinds include_dead limit)) = Some q
      \<and> (text_arg = None \<longrightarrow> ''text'' \<notin> fst ` set q)
      \<and> (tags_arg = None \<longrightarrow> ''tags'' \<notin> fst ` set q)
      \<and> (kinds = None \<longrightarrow> ''kinds'' \<notin> fst ` set q)
      \<and> (include_dead = None \<longrightarrow> ''include_dead'' \<notin> fst ` set q)
      \<and> (limit = None \<longrightarrow> ''limit'' \<notin> fst ` set q)
      \<and> JNull \<notin> snd ` set q)
   \<and> (\<exists>q. params (fst (get_chat_history self t limit' offset)) = Some q
      \<and> (limit' = None \<longrightarrow> ''limit'' \<notin> fst ` set q)
      \<and> (offset = None \<longrightarrow> ''offset'' \<notin> fst ` set q)
      \<and> JNull \<notin> snd ` set q)"
  unfolding query_beams_params get_chat_history_params
  by auto

theorem C5_omitted_argument_not_sent_witness:
  "(\<exists>q. params (fst (query_beams (A_init ''http://localhost:3000'' None 30)
            (mock_transport (Failed Timeout)) (Some ''beam'') None None None None)) = Some q
        \<and> ''limit'' \<notin> fst ` set q \<and> JNull \<notin> snd ` set q)
   \<and> (\<exists>q. params (fst (get_chat_history (A_init ''http://localhost:3000'' None 30)
            (mock_transport (Failed Timeout)) None (Some 5))) = Some q
        \<and> ''limit'' \<notin> fst ` set q \<and> JNull \<notin> snd ` set q)"
  using C5_omitted_argument_not_sent
    [of "A_init ''http://localhost:3000'' None 30" "mock_transport (Failed Timeout)"
        "Some ''beam''" None None None None None "Some 5"]
  by blast

section \<open>Client A: optional arguments in the payload\<close>

lemma create_beam_body:
  "json_body (fst (create_beam self t k ti tg b bio p)) =
     Some (create_beam_payload k ti tg b bio p)"
  by (simp add: create_beam_def sent)

lemma update_beam_body:
  "json_body (fst (update_beam self t bid tio tgo bo)) = Some (update_beam_payload tio tgo bo)"
  by (simp add: update_beam_def sent)

lemma tombstone_beam_body:
  "json_body (fst (tombstone_beam self t bid rc tok)) = Some (tombstone_beam_payload rc tok)"
  by (simp add: tombstone_beam_def sent)

lemmas payload_defs =
  create_beam_payload_def update_beam_payload_def tombstone_beam_payload_def
  opt_str_def opt_str_list_def opt_bool_def str_list_def Let_def

lemma falsy_same_payload:
  "json_body (fst (create_beam self t k ti tg b (Some []) p))
     = json_body (fst (create_beam self t k ti tg b None p))"
  "json_body (fst (update_beam self t bid (Some []) tgo bo))
     = json_body (fst (update_beam self t bid None tgo bo))"
  "json_body (fst (update_beam self t bid tio (Some []) bo))
     = json_body (fst (update_beam self t bid tio None bo))"
  "json_body (fst (update_beam self t bid tio tgo (Some [])))
     = json_body (fst (update_beam self t bid tio tgo None))"
  "json_body (fst (tombstone_beam self t bid rc (Some [])))
     = json_body (fst (tombstone_beam self t bid rc None))"
  by (simp_all add: create_beam_body update_beam_body tombstone_beam_body payload_defs)

lemma omitted_keys:
  "map_of (create_beam_payload k ti tg b None p) ''beam_id'' = None"
  "map_of (create_beam_payload k ti tg b bio p) ''pinned'' = map_option JBool p"
  "map_of (update_beam_payload None tgo bo) ''title'' = None"
  "map_of (update_beam_payload tio None bo) ''tags'' = None"
  "map_of (update_beam_payload tio tgo None) ''body'' = None"
  "map_of (tombstone_beam_payload rc None) ''approval_token'' = None"
  by (simp_all add: payload_defs split: option.splits)

lemma payload_no_null:
  "JNull \<notin> snd ` set (create_beam_payload k ti tg b bio p)"
  "JNull \<notin> snd ` set (update_beam_payload tio tgo bo)"
  "JNull \<notin> snd ` set (tombstone_beam_payload rc tok)"
  by (auto simp add: payload_defs split: option.splits if_splits)

text \<open>
  C6, as the code has it. An optional argument tested by truthiness (\<open>beam_id\<close> of
  \<open>create_beam\<close>; \<open>title\<close>, \<open>tags\<close>, \<open>body\<close> of \<open>update_beam\<close>; \<open>approval_token\<close> of
  \<open>tombstone_beam\<close>) is left out of the payload when it is \<open>None\<close> or empty, so that the
  empty value sends the payload that omitting the argument sends. \<open>pinned\<close> of
  \<open>create_beam\<close> is tested with \<open>is not None\<close>: it is left out only when it is \<open>None\<close>
  and is sent as given otherwise, \<open>False\<close> included. No payload holds a null.
\<close>

theorem C6_optional_arguments_in_payload:
  "json_body (fst (create_beam self t k ti tg b (Some '''') p))
     = json_body (fst (create_beam self t k ti tg b None p))
   \<and> json_body (fst (update_beam self t bid (Some '''') tgo bo))
     = json_body (fst (update_beam self t bid None tgo bo))
   \<and> json_body (fst (update_beam self t bid tio (Some []) bo))
     = json_body (fst (update_beam self t bid tio None bo))
   \<and> json_body (fst (update_beam self t bid tio tgo (Some '''')))
     = json_body (fst (update_beam self t bid tio tgo None))
   \<and> json_body (fst (tombstone_beam self t bid rc (Some '''')))
     = json_body (fst (tombstone_beam self t bid rc None))
   \<and> (\<exists>q. json_body (fst (create_beam self t k ti tg b None p)) = Some q
         \<and> map_of q ''beam_id'' = None)
   \<and> (\<exists>q. json_body (fst (create_beam self t k ti tg b bio p)) = Some q
         \<and> map_of q ''pinned'' = map_option JBool p \<and> JNull \<notin> snd ` set q)
   \<and> (\<exists>q. json_body (fst (update_beam self t bid None tgo bo)) = Some q
         \<and> map_of q ''title'' = None)
   \<and> (\<exists>q. json_body (fst (update_beam self t bid tio None bo)) = Some q
         \<and> map_of q ''tags'' = None)
   \<and> (\<exists>q. json_body (fst (update_beam self t bid tio tgo None)) = Some q
         \<and> map_of q ''body'' = None)
   \<and> (\<exists>q. json_body (fst (update_beam self t bid tio tgo bo)) = Some q
         \<and> JNull \<notin> snd ` set q)
   \<and> (\<exists>q. json_body (fst (tombstone_beam self t bid rc None)) = Some q
         \<and> map_of q ''approval_token'' = None)
   \<and> (\<exists>q. json_body (fst (tombstone_beam self t bid rc tok)) = Some q
         \<and> JNull \<notin> snd ` set q)"
  using falsy_same_payload [of self t] omitted_keys payload_no_null
  by (simp add: create_beam_body update_beam_body tombstone_beam_body)

text \<open>
  The claim as stated fails at \<open>pinned=False\<close>: the payload of \<open>create_beam\<close> then holds
  \<open>"pinned": false\<close> and differs from the payload sent when \<open>pinned\<close> is omitted.
\<close>

theorem C6_counterexample:
  "json_body (fst (create_beam (A_init ''http://localhost:3000'' None 30)
        (mock_transport (Response 200 (Some (JObj [])))) ''note'' ''t'' [] ''b'' None (Some False)))
     = Some [(''kind'', JStr ''note''), (''title'', JStr ''t''), (''tags'', JList []),
             (''body'', JStr ''b''), (''pinned'', JBool False)]
   \<and> json_body (fst (create_beam (A_init ''http://localhost:3000'' None 30)
        (mock_transport (Response 200 (Some (JObj [])))) ''note'' ''t'' [] ''b'' None None))
     = Some [(''kind'', JStr ''note''), (''title'', JStr ''t''), (''tags'', JList []),
             (''body'', JStr ''b'')]"
  by (simp add: create_beam_body payload_defs)

section \<open>Failures of the transport and of the status\<close>

lemmas A_methods = health_def get_status_def get_identity_def send_message_def get_chat_history_def query_beams_def get_beam_def create_beam_def update_beam_def pin_beam_def unpin_beam_def retire_beam_def tombstone_beam_def

lemmas B_methods = get_genome_def get_health_def get_job_logs_def resume_job_def run_job_def get_job_status_def create_edge_def get_edge_def create_hyperedge_def get_hyperedge_def create_node_def get_node_def update_node_def get_node_edges_def get_node_hyperedges_def search_nodes_def interpret_text_def get_openapi_def

lemmas Async_methods = async_get_genome_def async_get_health_def async_get_job_logs_def async_resume_job_def async_run_job_def async_get_job_status_def async_create_edge_def async_get_edge_def async_create_hyperedge_def async_get_hyperedge_def async_create_node_def async_get_node_def async_update_node_def async_get_node_edges_def async_get_node_hyperedges_def async_search_nodes_def async_interpret_text_def async_get_openapi_def

lemma A_request_raises:
  "t (fst (A_request self t m p j q)) = Failed f
     \<Longrightarrow> snd (A_request self t m p j q) = Inl (RequestFailed (TransportError f))"
  "t (fst (A_request self t m p j q)) = Response s b \<Longrightarrow> 400 \<le> s \<Longrightarrow> s < 600
     \<Longrightarrow> snd (A_request self t m p j q) = Inl (RequestFailed (StatusError s))"
  by (simp_all add: snd_A_request send_and_parse_def requests_raise_for_status_def)

text \<open>
  C1, as the code has it. For every endpoint method of Client A: when the transport
  fails, or the response has a status from 400 to 599, the call raises \<open>RequestFailed\<close>
  carrying the cause (the transport's failure or the status error), and nothing else.
  The list holds, for each of the thirteen endpoint methods, the request it sent and
  the exception it raised.
\<close>

theorem C1_client_A_failure_raised:
  "list_all (\<lambda>call.
        (\<forall>f. t (fst call) = Failed f
           \<longrightarrow> snd call = Some (RequestFailed (TransportError f)))
      \<and> (\<forall>s b. t (fst call) = Response s b \<and> 400 \<le> s \<and> s < 600
           \<longrightarrow> snd call = Some (RequestFailed (StatusError s))))
     [error_of (health self t),
      error_of (get_status self t),
      error_of (get_identity self t),
      error_of (send_message self t msg),
      error_of (get_chat_history self t lmt off),
      error_of (query_beams self t txt tgs knd dead lmt),
      error_of (get_beam self t bid),
      error_of (create_beam self t k ti tg b bio p),
      error_of (update_beam self t bid tio tgo bo),
      error_of (pin_beam self t bid),
      error_of (unpin_beam self t bid),
      error_of (retire_beam self t bid),
      error_of (tombstone_beam self t bid rc tok)]"
  unfolding A_methods list.pred_inject
  by (intro conjI allI impI TrueI; (elim conjE)?;
      simp add: error_of_def fst_returning snd_returning and_then_def A_request_raises)

theorem C1_client_A_failure_raised_witness:
  "snd (error_of (health (A_init ''http://localhost:3000'' None 30)
          (mock_transport (Failed ConnectionRefused))))
     = Some (RequestFailed (TransportError ConnectionRefused))
   \<and> snd (error_of (get_beam (A_init ''http://localhost:3000'' None 30)
          (mock_transport (Response 404 None)) ''b1''))
     = Some (RequestFailed (StatusError 404))
   \<and> snd (error_of (tombstone_beam (A_init ''http://localhost:3000'' None 30)
          (mock_transport (Response 503 None)) ''b1'' ''dup'' None))
     = Some (RequestFailed (StatusError 503))"
  using
    C1_client_A_failure_raised
      [where t = "mock_transport (Failed ConnectionRefused)"
         and self = "A_init ''http://localhost:3000'' None 30"]
    C1_client_A_failure_raised
      [where t = "mock_transport (Response 404 None)"
         and self = "A_init ''http://localhost:3000'' None 30" and bid = "''b1''"]
    C1_client_A_failure_raised
      [where t = "mock_transport (Response 503 None)"
         and self = "A_init ''http://localhost:3000'' None 30" and bid = "''b1''"
         and rc = "''dup''" and tok = None]
  by simp

text \<open>
  The claim as stated fails in Client A at a status that is not 2xx and not 4xx or 5xx:
  on a response with status 300 and a JSON body, \<open>raise_for_status\<close> does not raise and
  \<open>health\<close> returns the body.
\<close>

theorem C1_counterexample:
  "snd (health (A_init ''http://localhost:3000'' None 30)
          (mock_transport (Response 300 (Some (JObj [(''status'', JStr ''ok'')])))))
     = Inr (JObj [(''status'', JStr ''ok'')])"
  by (simp add: health_def snd_A_request send_and_parse_def requests_raise_for_status_def)

section \<open>Headers of every request\<close>

lemma A_init_headers:
  "session_headers (connection (A_init u key tmo)) =
     (case key of None \<Rightarrow> [(''Content-Type'', ''application/json'')]
      | Some token \<Rightarrow>
          if token = [] then [(''Content-Type'', ''application/json'')]
          else [(''Authorization'', ''Bearer '' @ token),
                (''Content-Type'', ''application/json'')])"
  by (simp add: A_init_def opt_str_def Let_def split: option.splits)

lemma B_init_headers:
  "B_headers (B_init u key r) =
     (case key of None \<Rightarrow> [(''Content-Type'', ''application/json'')]
      | Some token \<Rightarrow>
          if token = [] then [(''Content-Type'', ''application/json'')]
          else [(''Content-Type'', ''application/json''),
                (''Authorization'', ''Bearer '' @ token)])"
  by (simp add: B_init_def B_headers_def opt_str_def Let_def split: option.splits)

lemma Async_init_headers:
  "Async_headers (Async_init u key r) =
     (case key of None \<Rightarrow> [(''Content-Type'', ''application/json'')]
      | Some token \<Rightarrow>
          if token = [] then [(''Content-Type'', ''application/json'')]
          else [(''Content-Type'', ''application/json''),
                (''Authorization'', ''Bearer '' @ token)])"
  by (simp add: Async_init_def Async_headers_def opt_str_def Let_def split: option.splits)

lemma A_headers_sent:
  "list_all (\<lambda>req. headers req = session_headers (connection self))
     [fst (health self t),
      fst (get_status self t),
      fst (get_identity self t),
      fst (send_message self t msg),
      fst (get_chat_history self t lmt off),
      fst (query_beams self t txt tgs knd dead lmt),
      fst (get_beam self t bid),
      fst (create_beam self t k ti tg b bio p),
      fst (update_beam self t bid tio tgo bo),
      fst (pin_beam self t bid),
      fst (unpin_beam self t bid),
      fst (retire_beam self t bid),
      fst (tombstone_beam self t bid rc tok)]"
  by (simp add: A_methods sent)

lemma B_headers_sent:
  "list_all (\<lambda>req. headers req = B_headers self)
     [fst (get_genome self t pyd),
      fst (get_health self t pyd),
      fst (get_job_logs self t jid lmt),
      fst (resume_job self t),
      fst (run_job self t pyd jt inp pol),
      fst (get_job_status self t pyd jid lmt),
      fst (create_edge self t pyd ik fr to ty md),
      fst (get_edge self t pyd nid),
      fst (create_hyperedge self t),
      fst (get_hyperedge self t nid),
      fst (create_node self t pyd ik ty dat md ido),
      fst (get_node self t pyd nid),
      fst (update_node self t nid),
      fst (get_node_edges self t nid),
      fst (get_node_hyperedges self t nid),
      fst (search_nodes self t pyd qry num),
      fst (interpret_text self t pyd words lmt),
      fst (get_openapi self t)]"
  by (simp add: B_methods sent Let_def)

lemma Async_headers_sent:
  "list_all (\<lambda>req. headers req = Async_headers self)
     [fst (async_get_genome self t pyd),
      fst (async_get_health self t pyd),
      fst (async_get_job_logs self t jid lmt),
      fst (async_resume_job self t),
      fst (async_run_job self t pyd jt inp pol),
      fst (async_get_job_status self t pyd jid lmt),
      fst (async_create_edge self t pyd ik fr to ty md),
      fst (async_get_edge self t pyd nid),
      fst (async_create_hyperedge self t),
      fst (async_get_hyperedge self t nid),
      fst (async_create_node self t pyd ik ty dat md ido),
      fst (async_get_node self t pyd nid),
      fst (async_update_node self t nid),
      fst (async_get_node_edges self t nid),
      fst (async_get_node_hyperedges self t nid),
      fst (async_search_nodes self t pyd qry num),
      fst (async_interpret_text self t pyd words lmt),
      fst (async_get_openapi self t)]"
  by (simp add: Async_methods sent Let_def)

lemma list_all_headers:
  assumes "list_all (\<lambda>req. headers req = h) reqs" and "P h"
  shows "list_all (\<lambda>req. P (headers req)) reqs"
  using assms by (induction reqs) auto

text \<open>
  C9, as the code has it. Every request of every endpoint method of the three classes
  carries \<open>Content-Type: application/json\<close>. It carries \<open>Authorization: Bearer <token>\<close>
  exactly when the client was constructed with an \<open>api_key\<close> that is a non-empty string,
  and the token is that key; with no key, or with the empty string, there is no
  \<open>Authorization\<close> header.
\<close>

theorem C9_headers_of_every_request:
  "list_all (\<lambda>req.
        map_of (headers req) ''Content-Type'' = Some ''application/json''
      \<and> map_of (headers req) ''Authorization'' =
          (case key of None \<Rightarrow> None
           | Some token \<Rightarrow> if token = [] then None else Some (''Bearer '' @ token)))
     [fst (health (A_init u key tmo) t),
      fst (get_status (A_init u key tmo) t),
      fst (get_identity (A_init u key tmo) t),
      fst (send_message (A_init u key tmo) t msg),
      fst (get_chat_history (A_init u key tmo) t lmt off),
      fst (query_beams (A_init u key tmo) t txt tgs knd dead lmt),
      fst (get_beam (A_init u key tmo) t bid),
      fst (create_beam (A_init u key tmo) t k ti tg b bio p),
      fst (update_beam (A_init u key tmo) t bid tio tgo bo),
      fst (pin_beam (A_init u key tmo) t bid),
      fst (unpin_beam (A_init u key tmo) t bid),
      fst (retire_beam (A_init u key tmo) t bid),
      fst (tombstone_beam (A_init u key tmo) t bid rc tok)]
   \<and> list_all (\<lambda>req.
        map_of (headers req) ''Content-Type'' = Some ''application/json''
      \<and> map_of (headers req) ''Authorization'' =
          (case key of None \<Rightarrow> None
           | Some token \<Rightarrow> if token = [] then None else Some (''Bearer '' @ token)))
     [fst (get_genome (B_init u key r) t pyd),
      fst (get_health (B_init u key r) t pyd),
      fst (get_job_logs (B_init u key r) t jid lmt),
      fst (resume_job (B_init u key r) t),
      fst (run_job (B_init u key r) t pyd jt inp pol),
      fst (get_job_status (B_init u key r) t pyd jid lmt),
      fst (create_edge (B_init u key r) t pyd ik fr to ty md),
      fst (get_edge (B_init u key r) t pyd nid),
      fst (create_hyperedge (B_init u key r) t),
      fst (get_hyperedge (B_init u key r) t nid),
      fst (create_node (B_init u key r) t pyd ik ty dat md ido),
      fst (get_node (B_init u key r) t pyd nid),
      fst (update_node (B_init u key r) t nid),
      fst (get_node_edges (B_init u key r) t nid),
      fst (get_node_hyperedges (B_init u key r) t nid),
      fst (search_nodes (B_init u key r) t pyd qry num),
      fst (interpret_text (B_init u key r) t pyd words lmt),
      fst (get_openapi (B_init u key r) t)]
   \<and> list_all (\<lambda>req.
        map_of (headers req) ''Content-Type'' = Some ''application/json''
      \<and> map_of (headers req) ''Authorization'' =
          (case key of None \<Rightarrow> None
           | Some token \<Rightarrow> if token = [] then None else Some (''Bearer '' @ token)))
     [fst (async_get_genome (Async_init u key r) t pyd),
      fst (async_get_health (Async_init u key r) t pyd),
      fst (async_get_job_logs (Async_init u key r) t jid lmt),
      fst (async_resume_job (Async_init u key r) t),
      fst (async_run_job (Async_init u key r) t pyd jt inp pol),
      fst (async_get_job_status (Async_init u key r) t pyd jid lmt),
      fst (async_create_edge (Async_init u key r) t pyd ik fr to ty md),
      fst (async_get_edge (Async_init u key r) t pyd nid),
      fst (async_create_hyperedge (Async_init u key r) t),
      fst (async_get_hyperedge (Async_init u key r) t nid),
      fst (async_create_node (Async_init u key r) t pyd ik ty dat md ido),
      fst (async_get_node (Async_init u key r) t pyd nid),
      fst (async_update_node (Async_init u key r) t nid),
      fst (async_get_node_edges (Async_init u key r) t nid),
      fst (async_get_node_hyperedges (Async_init u key r) t nid),
      fst (async_search_nodes (Async_init u key r) t pyd qry num),
      fst (async_interpret_text (Async_init u key r) t pyd words lmt),
      fst (async_get_openapi (Async_init u key r) t)]"
  apply (intro conjI)
  subgoal
    by (rule list_all_headers [OF A_headers_sent])
      (simp add: A_init_headers split: option.splits)
  subgoal
    by (rule list_all_headers [OF B_headers_sent])
      (simp add: B_init_headers split: option.splits)
  subgoal
    by (rule list_all_headers [OF Async_headers_sent])
      (simp add: Async_init_headers split: option.splits)
  done

text \<open>
  The claim as stated fails at the empty key: a client constructed with \<open>api_key=""\<close>
  stores that key and sends no \<open>Authorization\<close> header.
\<close>

theorem C9_counterexample:
  "api_key (A_init ''http://localhost:3000'' (Some '''') 30) = Some ''''
   \<and> map_of (headers (fst (health (A_init ''http://localhost:3000'' (Some '''') 30)
          (mock_transport (Response 200 (Some (JObj [])))))))
        ''Authorization'' = None
   \<and> api_key (B_init ''http://localhost:3000'' (Some '''') 30) = Some ''''
   \<and> map_of (headers (fst (get_health (B_init ''http://localhost:3000'' (Some '''') 30)
          (mock_transport (Response 200 (Some (JObj [])))) accept_fields)))
        ''Authorization'' = None"
  by (simp add: health_def get_health_def sent A_init_headers B_init_headers)
    (simp add: A_init_def B_init_def)

section \<open>Client A: the result of \<open>query_beams\<close>\<close>

lemma make_beam_verbatim:
  assumes "\<forall>k\<in>set [''beam_id'', ''kind'', ''title'', ''tags'', ''body'', ''status'', ''pinned'', ''updated_at_ms'']. \<exists>v. getitem b k = Inr v"
  shows "\<exists>r. make_beam b = Inr r
           \<and> getitem b ''beam_id'' = Inr (beam_id r)
           \<and> getitem b ''kind'' = Inr (kind r)
           \<and> getitem b ''title'' = Inr (title r)
           \<and> getitem b ''tags'' = Inr (tags r)
           \<and> getitem b ''body'' = Inr (body r)
           \<and> getitem b ''status'' = Inr (status r)
           \<and> getitem b ''pinned'' = Inr (pinned r)
           \<and> getitem b ''updated_at_ms'' = Inr (updated_at_ms r)"
proof -
  from assms obtain v1 v2 v3 v4 v5 v6 v7 v8 where
    "getitem b ''beam_id'' = Inr v1" "getitem b ''kind'' = Inr v2"
    "getitem b ''title'' = Inr v3" "getitem b ''tags'' = Inr v4"
    "getitem b ''body'' = Inr v5" "getitem b ''status'' = Inr v6"
    "getitem b ''pinned'' = Inr v7" "getitem b ''updated_at_ms'' = Inr v8"
    by auto
  then show ?thesis by (simp add: make_beam_def and_then_def)
qed

lemma comprehension_all:
  assumes "\<forall>x\<in>set xs. \<exists>y. f x = Inr y \<and> Q x y"
  shows "\<exists>ys. comprehension f xs = Inr ys \<and> length ys = length xs
              \<and> (\<forall>i<length xs. Q (xs ! i) (ys ! i))"
  using assms
proof (induction xs)
  case Nil
  then show ?case by simp
next
  case (Cons x xs)
  then obtain y where y: "f x = Inr y" "Q x y" by auto
  from Cons obtain ys where ys: "comprehension f xs = Inr ys" "length ys = length xs"
    "\<forall>i<length xs. Q (xs ! i) (ys ! i)" by auto
  have "\<forall>i<length (x # xs). Q ((x # xs) ! i) ((y # ys) ! i)"
    using y ys by (auto simp: nth_Cons split: nat.splits)
  with y ys show ?case by (simp add: and_then_def)
qed

text \<open>
  C7. When the transport answers \<open>query_beams\<close> with a successful response whose body
  is an object with \<open>"beams"\<close> an array of beam objects (objects with the eight keys of
  a Beam) and \<open>"total"\<close> a value \<open>n\<close>, the method returns a \<open>BeamQueryResponse\<close> whose
  \<open>beams\<close> has the array's length, whose \<open>i\<close>-th Beam has exactly the values of the
  \<open>i\<close>-th element under the eight keys, and whose \<open>total\<close> is \<open>n\<close>, whatever the length
  of the array.
\<close>

theorem C7_query_beams_result:
  assumes "t (fst (query_beams self t txt tgs knd dead lmt)) = Response s (Some (JObj kvs))"
    and "200 \<le> s \<and> s < 300"
    and "map_of kvs ''beams'' = Some (JList bs)"
    and "map_of kvs ''total'' = Some n"
    and "\<forall>b\<in>set bs. \<forall>k\<in>set [''beam_id'', ''kind'', ''title'', ''tags'', ''body'', ''status'', ''pinned'', ''updated_at_ms''].
           \<exists>v. getitem b k = Inr v"
  shows "\<exists>r. snd (query_beams self t txt tgs knd dead lmt) = Inr r
           \<and> total' r = n
           \<and> length (beams r) = length bs
           \<and> (\<forall>i<length bs.
                getitem (bs ! i) ''beam_id'' = Inr (beam_id (beams r ! i))
              \<and> getitem (bs ! i) ''kind'' = Inr (kind (beams r ! i))
              \<and> getitem (bs ! i) ''title'' = Inr (title (beams r ! i))
              \<and> getitem (bs ! i) ''tags'' = Inr (tags (beams r ! i))
              \<and> getitem (bs ! i) ''body'' = Inr (body (beams r ! i))
              \<and> getitem (bs ! i) ''status'' = Inr (status (beams r ! i))
              \<and> getitem (bs ! i) ''pinned'' = Inr (pinned (beams r ! i))
              \<and> getitem (bs ! i) ''updated_at_ms'' = Inr (updated_at_ms (beams r ! i)))"
proof -
  have "snd (A_request self t ''GET'' ''/api/beams'' None
          (Some [(''text'', opt_str txt), (''tags'', opt_str_list tgs),
                 (''kinds'', opt_str_list knd), (''include_dead'', opt_bool dead),
                 (''limit'', opt_int lmt)])) = Inr (JObj kvs)"
    using assms(1,2)
    by (simp add: query_beams_def fst_returning snd_A_request send_and_parse_def
        requests_raise_for_status_def)
  then have run: "snd (query_beams self t txt tgs knd dead lmt) =
      and_then (comprehension make_beam bs) (\<lambda>beam_list. Inr \<lparr>beams = beam_list, total' = n\<rparr>)"
    using assms(3,4)
    by (simp add: query_beams_def snd_returning and_then_def split: sum.splits)
  have "\<forall>b\<in>set bs. \<exists>r. make_beam b = Inr r
           \<and> getitem b ''beam_id'' = Inr (beam_id r)
           \<and> getitem b ''kind'' = Inr (kind r)
           \<and> getitem b ''title'' = Inr (title r)
           \<and> getitem b ''tags'' = Inr (tags r)
           \<and> getitem b ''body'' = Inr (body r)
           \<and> getitem b ''status'' = Inr (status r)
           \<and> getitem b ''pinned'' = Inr (pinned r)
           \<and> getitem b ''updated_at_ms'' = Inr (updated_at_ms r)"
    using assms(5) make_beam_verbatim by blast
  from comprehension_all [where f = make_beam and xs = bs and Q = "\<lambda>b r.
             getitem b ''beam_id'' = Inr (beam_id r)
           \<and> getitem b ''kind'' = Inr (kind r)
           \<and> getitem b ''title'' = Inr (title r)
           \<and> getitem b ''tags'' = Inr (tags r)
           \<and> getitem b ''body'' = Inr (body r)
           \<and> getitem b ''status'' = Inr (status r)
           \<and> getitem b ''pinned'' = Inr (pinned r)
           \<and> getitem b ''updated_at_ms'' = Inr (updated_at_ms r)", OF this]
  obtain ys where ys: "comprehension make_beam bs = Inr ys" "length ys = length bs"
    "\<forall>i<length bs.
             getitem (bs ! i) ''beam_id'' = Inr (beam_id (ys ! i))
           \<and> getitem (bs ! i) ''kind'' = Inr (kind (ys ! i))
           \<and> getitem (bs ! i) ''title'' = Inr (title (ys ! i))
           \<and> getitem (bs ! i) ''tags'' = Inr (tags (ys ! i))
           \<and> getitem (bs ! i) ''body'' = Inr (body (ys ! i))
           \<and> getitem (bs ! i) ''status'' = Inr (status (ys ! i))
           \<and> getitem (bs ! i) ''pinned'' = Inr (pinned (ys ! i))
           \<and> getitem (bs ! i) ''updated_at_ms'' = Inr (updated_at_ms (ys ! i))"
    by blast
  show ?thesis
    using run ys by (simp add: and_then_def)
qed

theorem C7_query_beams_result_witness:
  "\<exists>r. snd (query_beams (A_init ''http://localhost:3000'' None 30)
          (mock_transport (Response 200 (Some (JObj
             [(''beams'', JList
                 [JObj [(''beam_id'', JStr ''b1''), (''kind'', JStr ''note''),
                        (''title'', JStr ''first''), (''tags'', JList [JStr ''x'']),
                        (''body'', JStr ''one''), (''status'', JStr ''active''),
                        (''pinned'', JBool True), (''updated_at_ms'', JInt 1)],
                  JObj [(''beam_id'', JStr ''b2''), (''kind'', JStr ''note''),
                        (''title'', JStr ''second''), (''tags'', JList []),
                        (''body'', JStr ''two''), (''status'', JStr ''retired''),
                        (''pinned'', JBool False), (''updated_at_ms'', JInt 2)]]),
              (''total'', JInt 7)]))))
          None None None None None) = Inr r
      \<and> total' r = JInt 7 \<and> length (beams r) = 2
      \<and> beam_id (beams r ! 0) = JStr ''b1'' \<and> title (beams r ! 0) = JStr ''first''
      \<and> beam_id (beams r ! 1) = JStr ''b2'' \<and> pinned (beams r ! 1) = JBool False"
proof -
  let ?b1 = "JObj [(''beam_id'', JStr ''b1''), (''kind'', JStr ''note''),
                        (''title'', JStr ''first''), (''tags'', JList [JStr ''x'']),
                        (''body'', JStr ''one''), (''status'', JStr ''active''),
                        (''pinned'', JBool True), (''updated_at_ms'', JInt 1)]"
  let ?b2 = "JObj [(''beam_id'', JStr ''b2''), (''kind'', JStr ''note''),
                        (''title'', JStr ''second''), (''tags'', JList []),
                        (''body'', JStr ''two''), (''status'', JStr ''retired''),
                        (''pinned'', JBool False), (''updated_at_ms'', JInt 2)]"
  let ?kvs = "[(''beams'', JList [?b1, ?b2]), (''total'', JInt 7)]"
  let ?t = "mock_transport (Response 200 (Some (JObj ?kvs)))"
  have "\<exists>r. snd (query_beams (A_init ''http://localhost:3000'' None 30) ?t
                 None None None None None) = Inr r
           \<and> total' r = JInt 7
           \<and> length (beams r) = length [?b1, ?b2]
           \<and> (\<forall>i<length [?b1, ?b2].
                getitem ([?b1, ?b2] ! i) ''beam_id'' = Inr (beam_id (beams r ! i))
              \<and> getitem ([?b1, ?b2] ! i) ''kind'' = Inr (kind (beams r ! i))
              \<and> getitem ([?b1, ?b2] ! i) ''title'' = Inr (title (beams r ! i))
              \<and> getitem ([?b1, ?b2] ! i) ''tags'' = Inr (tags (beams r ! i))
              \<and> getitem ([?b1, ?b2] ! i) ''body'' = Inr (body (beams r ! i))
              \<and> getitem ([?b1, ?b2] ! i) ''status'' = Inr (status (beams r ! i))
              \<and> getitem ([?b1, ?b2] ! i) ''pinned'' = Inr (pinned (beams r ! i))
              \<and> getitem ([?b1, ?b2] ! i) ''updated_at_ms'' = Inr (updated_at_ms (beams r ! i)))"
    by (rule C7_query_beams_result [where s = 200 and kvs = ?kvs]) simp_all
  then obtain r where r: "snd (query_beams (A_init ''http://localhost:3000'' None 30) ?t
                 None None None None None) = Inr r" "total' r = JInt 7"
      "length (beams r) = 2"
      "\<forall>i<2. getitem ([?b1, ?b2] ! i) ''beam_id'' = Inr (beam_id (beams r ! i))
              \<and> getitem ([?b1, ?b2] ! i) ''kind'' = Inr (kind (beams r ! i))
              \<and> getitem ([?b1, ?b2] ! i) ''title'' = Inr (title (beams r ! i))
              \<and> getitem ([?b1, ?b2] ! i) ''tags'' = Inr (tags (beams r ! i))
              \<and> getitem ([?b1, ?b2] ! i) ''body'' = Inr (body (beams r ! i))
              \<and> getitem ([?b1, ?b2] ! i) ''status'' = Inr (status (beams r ! i))
              \<and> getitem ([?b1, ?b2] ! i) ''pinned'' = Inr (pinned (beams r ! i))
              \<and> getitem ([?b1, ?b2] ! i) ''updated_at_ms'' = Inr (updated_at_ms (beams r ! i))"
    by auto
  from r(4) have "getitem ([?b1, ?b2] ! 0) ''beam_id'' = Inr (beam_id (beams r ! 0))
              \<and> getitem ([?b1, ?b2] ! 0) ''kind'' = Inr (kind (beams r ! 0))
              \<and> getitem ([?b1, ?b2] ! 0) ''title'' = Inr (title (beams r ! 0))
              \<and> getitem ([?b1, ?b2] ! 0) ''tags'' = Inr (tags (beams r ! 0))
              \<and> getitem ([?b1, ?b2] ! 0) ''body'' = Inr (body (beams r ! 0))
              \<and> getitem ([?b1, ?b2] ! 0) ''status'' = Inr (status (beams r ! 0))
              \<and> getitem ([?b1, ?b2] ! 0) ''pinned'' = Inr (pinned (beams r ! 0))
              \<and> getitem ([?b1, ?b2] ! 0) ''updated_at_ms'' = Inr (updated_at_ms (beams r ! 0))"
    by (rule allE [where x = 0]) simp
  moreover from r(4) have "getitem ([?b1, ?b2] ! 1) ''beam_id'' = Inr (beam_id (beams r ! 1))
              \<and> getitem ([?b1, ?b2] ! 1) ''kind'' = Inr (kind (beams r ! 1))
              \<and> getitem ([?b1, ?b2] ! 1) ''title'' = Inr (title (beams r ! 1))
              \<and> getitem ([?b1, ?b2] ! 1) ''tags'' = Inr (tags (beams r ! 1))
              \<and> getitem ([?b1, ?b2] ! 1) ''body'' = Inr (body (beams r ! 1))
              \<and> getitem ([?b1, ?b2] ! 1) ''status'' = Inr (status (beams r ! 1))
              \<and> getitem ([?b1, ?b2] ! 1) ''pinned'' = Inr (pinned (beams r ! 1))
              \<and> getitem ([?b1, ?b2] ! 1) ''updated_at_ms'' = Inr (updated_at_ms (beams r ! 1))"
    by (rule allE [where x = 1]) simp
  ultimately show ?thesis using r(1,2,3) by auto
qed

section \<open>Scoped use and release of the connection\<close>

lemma B_scope_releases:
  "is_closed (connection (fst (with_statement B_enter_method B_exit_method self block)))
   \<and> snd (with_statement B_enter_method B_exit_method self block) = snd (block self)"
  by (simp add: with_statement_def B_enter_method_def B_exit_method_def B_enter_def B_exit_def
      B_close_def Let_def)

lemma Async_scope_releases:
  "is_closed (connection (fst (with_statement Async_enter_method Async_exit_method self block)))
   \<and> snd (with_statement Async_enter_method Async_exit_method self block) = snd (block self)"
  by (simp add: with_statement_def Async_enter_method_def Async_exit_method_def
      Async_aenter_def Async_aexit_def Async_close_def Let_def)

text \<open>
  C8 at Client A. The class has no \<open>__enter__\<close>, \<open>__exit__\<close> or \<open>close\<close>: used as a
  scoped resource, \<open>with MathisonClient() as client: client.health()\<close> raises before the
  block runs and the session stays open. Client B's two classes do release their httpx
  client on exit, whatever the block does (the two lemmas above).
\<close>

theorem C8_client_A_not_scoped:
  "with_statement A_enter_method A_exit_method (A_init ''http://localhost:3000'' None 30)
       (health_block (mock_transport (Response 200 (Some (JObj [(''status'', JStr ''ok'')])))))
     = (A_init ''http://localhost:3000'' None 30, Inl (TypeError NoContextManager))
   \<and> session_closed (connection (fst
        (with_statement A_enter_method A_exit_method (A_init ''http://localhost:3000'' None 30)
           (health_block
              (mock_transport (Response 200 (Some (JObj [(''status'', JStr ''ok'')]))))))))
     = False"
  by (simp add: with_statement_def A_enter_method_def A_exit_method_def)
    (simp add: A_init_def Let_def)

section \<open>Client B as it is in the repository: the module does not import\<close>

lemma scan_lines_step:
  "scan_lines st n xs = Inr st' \<Longrightarrow> n + length xs = m
     \<Longrightarrow> scan_lines st n (xs @ ys) = scan_lines st' m ys"
  by (induction xs arbitrary: st n) (auto split: lex_result.splits)

lemma scan_lines_stop:
  "scan_lines st n xs = Inl k \<Longrightarrow> scan_lines st n (xs @ ys) = Inl k"
  by (induction xs arbitrary: st n) (auto split: lex_result.splits)

lemmas lexer_chars = dquote_def squote_def backslash_def hash_sign_def

lemma client_py_lengths:
  "length client_py_header = 21"
  "length client_py_sync_class = 47"
  "length client_py_sync_endpoints = 77"
  "length client_py_async_class = 47"
  "length client_py_async_endpoints = 94"
  by (simp_all add: client_py_header_def client_py_sync_class_def client_py_sync_endpoints_def
      client_py_async_class_def client_py_async_endpoints_def)

lemma client_py_header_scans: "scan_lines Code 1 client_py_header = Inr Code"
  by (simp add: client_py_header_def lexer_chars)

lemma client_py_sync_class_scans: "scan_lines Code 22 client_py_sync_class = Inr Code"
  by (simp add: client_py_sync_class_def lexer_chars)

lemma client_py_line_72:
  "scan_lines Code 69 (take 4 client_py_sync_endpoints) = Inl 72"
  by (simp add: client_py_sync_endpoints_def lexer_chars)

lemma client_py_sync_endpoints_refused:
  "scan_lines Code 69 client_py_sync_endpoints = Inl 72"
proof -
  have "scan_lines Code 69 (take 4 client_py_sync_endpoints @ drop 4 client_py_sync_endpoints)
      = Inl 72"
    by (rule scan_lines_stop [OF client_py_line_72])
  then show ?thesis by simp
qed

lemma client_py_scan: "scan_lines Code 1 client_py_lines = Inl 72"
proof -
  have "scan_lines Code 1 client_py_lines =
      scan_lines Code 22 (client_py_sync_class @ client_py_sync_endpoints
        @ client_py_async_class @ client_py_async_endpoints)"
    unfolding client_py_lines_def
    by (rule scan_lines_step [OF client_py_header_scans]) (simp add: client_py_lengths)
  also have "\<dots> = scan_lines Code 69 (client_py_sync_endpoints
        @ client_py_async_class @ client_py_async_endpoints)"
    by (rule scan_lines_step [OF client_py_sync_class_scans]) (simp add: client_py_lengths)
  also have "\<dots> = Inl 72"
    by (rule scan_lines_stop [OF client_py_sync_endpoints_refused])
  finally show ?thesis .
qed

lemma client_py_import: "python_import client_py_lines = Inl (SyntaxError 72)"
  unfolding python_import_def by (simp only: client_py_scan sum.case)

lemma importing_client_py: "importing client_py_lines call = ([], Inl (SyntaxError 72))"
  unfolding importing_def by (simp only: client_py_import sum.case)

lemma nth_after: "length xs = a \<Longrightarrow> a \<le> n \<Longrightarrow> (xs @ ys) ! n = ys ! (n - a)"
  by (simp add: nth_append)

lemma nth_before: "n < length xs \<Longrightarrow> (xs @ ys) ! n = xs ! n"
  by (simp add: nth_append)

lemma client_py_sync_nth:
  assumes "68 \<le> n" and "n < 145"
  shows "client_py_lines ! n = client_py_sync_endpoints ! (n - 68)"
proof -
  have parts: "client_py_lines = (client_py_header @ client_py_sync_class)
      @ (client_py_sync_endpoints @ (client_py_async_class @ client_py_async_endpoints))"
    by (simp add: client_py_lines_def)
  have len: "length (client_py_header @ client_py_sync_class) = 68"
    by (simp add: client_py_lengths)
  have inside: "n - 68 < length client_py_sync_endpoints"
    using assms by (simp add: client_py_lengths)
  have "client_py_lines ! n =
      (client_py_sync_endpoints @ (client_py_async_class @ client_py_async_endpoints)) ! (n - 68)"
    unfolding parts by (rule nth_after [OF len assms(1)])
  also have "\<dots> = client_py_sync_endpoints ! (n - 68)"
    by (rule nth_before [OF inside])
  finally show ?thesis .
qed

lemma client_py_async_nth:
  assumes "192 \<le> n"
  shows "client_py_lines ! n = client_py_async_endpoints ! (n - 192)"
proof -
  have parts: "client_py_lines = (client_py_header @ client_py_sync_class
      @ client_py_sync_endpoints @ client_py_async_class) @ client_py_async_endpoints"
    by (simp add: client_py_lines_def)
  have len: "length (client_py_header @ client_py_sync_class @ client_py_sync_endpoints
      @ client_py_async_class) = 192"
    by (simp add: client_py_lengths)
  show ?thesis
    unfolding parts by (rule nth_after [OF len assms])
qed

lemma spliced_sync_lines:
  "scan_line Code (client_py_lines ! 74) = LexError"
  "scan_line Code (client_py_lines ! 77) = LexError"
  "scan_line Code (client_py_lines ! 106) = LexError"
  "scan_line Code (client_py_lines ! 109) = LexError"
  "scan_line Code (client_py_lines ! 122) = LexError"
  "scan_line Code (client_py_lines ! 124) = LexError"
  "scan_line Code (client_py_lines ! 127) = LexError"
  "scan_line Code (client_py_lines ! 130) = LexError"
  "scan_line Code (client_py_lines ! 139) = LexError"
  by (simp_all add: client_py_sync_nth)
    (simp_all add: client_py_sync_endpoints_def lexer_chars)

lemma spliced_async_lines:
  "scan_line Code (client_py_lines ! 200) = LexError"
  "scan_line Code (client_py_lines ! 204) = LexError"
  "scan_line Code (client_py_lines ! 239) = LexError"
  "scan_line Code (client_py_lines ! 243) = LexError"
  "scan_line Code (client_py_lines ! 258) = LexError"
  "scan_line Code (client_py_lines ! 261) = LexError"
  "scan_line Code (client_py_lines ! 265) = LexError"
  "scan_line Code (client_py_lines ! 269) = LexError"
  "scan_line Code (client_py_lines ! 280) = LexError"
  by (simp_all add: client_py_async_nth)
    (simp_all add: client_py_async_endpoints_def lexer_chars)

text \<open>
  C2 at the code as it is. The five methods that end in \<open>Dict[str, Any](**data)\<close>, of
  both classes, stand on lines that are refused (107, 110, 128, 131, 140 and 240, 244,
  266, 270, 281). A program that imports the module and calls one of them raises
  \<open>SyntaxError\<close> at the import: the return expression is never evaluated and the
  exception is not the \<open>TypeError\<close> of the claim.
\<close>

theorem C2_typing_Dict_never_reached:
  "importing client_py_lines (get_job_logs self t jid lmt) = ([], Inl (SyntaxError 72))
   \<and> importing client_py_lines (get_hyperedge self t nid) = ([], Inl (SyntaxError 72))
   \<and> importing client_py_lines (get_node_edges self t nid) = ([], Inl (SyntaxError 72))
   \<and> importing client_py_lines (get_node_hyperedges self t nid) = ([], Inl (SyntaxError 72))
   \<and> importing client_py_lines (get_openapi self t) = ([], Inl (SyntaxError 72))
   \<and> importing client_py_lines (async_get_job_logs self t jid lmt) = ([], Inl (SyntaxError 72))
   \<and> importing client_py_lines (async_get_hyperedge self t nid) = ([], Inl (SyntaxError 72))
   \<and> importing client_py_lines (async_get_node_edges self t nid) = ([], Inl (SyntaxError 72))
   \<and> importing client_py_lines (async_get_node_hyperedges self t nid) = ([], Inl (SyntaxError 72))
   \<and> importing client_py_lines (async_get_openapi self t) = ([], Inl (SyntaxError 72))
   \<and> scan_line Code (client_py_lines ! 106) = LexError
   \<and> scan_line Code (client_py_lines ! 109) = LexError
   \<and> scan_line Code (client_py_lines ! 127) = LexError
   \<and> scan_line Code (client_py_lines ! 130) = LexError
   \<and> scan_line Code (client_py_lines ! 139) = LexError
   \<and> scan_line Code (client_py_lines ! 239) = LexError
   \<and> scan_line Code (client_py_lines ! 243) = LexError
   \<and> scan_line Code (client_py_lines ! 265) = LexError
   \<and> scan_line Code (client_py_lines ! 269) = LexError
   \<and> scan_line Code (client_py_lines ! 280) = LexError"
  by (simp add: importing_client_py spliced_sync_lines spliced_async_lines)

text \<open>
  C3 at the code as it is. The lines that hold \<open>update_node\<close> (123 and 125, and 259 and
  262 for the asynchronous class) carry the characters backslash and \<open>n\<close> in the code
  and are refused; the module raises \<open>SyntaxError\<close> at its line 72 on import. A program
  that imports it and calls \<open>update_node\<close> sends no request, for any \<open>id\<close>, where the
  claim has a POST to \<open>/memory/nodes/{id}\<close>.
\<close>

theorem C3_update_node_never_defined:
  "importing client_py_lines (update_node self t id1) = ([], Inl (SyntaxError 72))
   \<and> importing client_py_lines (async_update_node self t id1) = ([], Inl (SyntaxError 72))
   \<and> scan_line Code (client_py_lines ! 122) = LexError
   \<and> scan_line Code (client_py_lines ! 124) = LexError
   \<and> scan_line Code (client_py_lines ! 258) = LexError
   \<and> scan_line Code (client_py_lines ! 261) = LexError"
  by (simp add: importing_client_py spliced_sync_lines spliced_async_lines)

text \<open>
  C10 at the code as it is. The lines that hold \<open>get_job_logs\<close> (75 and 78, and 201 and
  205 for the asynchronous class) are refused in the same way. A program that imports
  the module and calls \<open>get_job_logs\<close> raises \<open>SyntaxError\<close> at the import and sends no
  request, where the claim has a GET to \<open>/jobs/logs\<close>.
\<close>

theorem C10_get_job_logs_never_defined:
  "importing client_py_lines (get_job_logs self t jid lmt) = ([], Inl (SyntaxError 72))
   \<and> importing client_py_lines (async_get_job_logs self t jid lmt) = ([], Inl (SyntaxError 72))
   \<and> scan_line Code (client_py_lines ! 74) = LexError
   \<and> scan_line Code (client_py_lines ! 77) = LexError
   \<and> scan_line Code (client_py_lines ! 200) = LexError
   \<and> scan_line Code (client_py_lines ! 204) = LexError"
  by (simp add: importing_client_py spliced_sync_lines spliced_async_lines)

end
